theory Spec2Isabelle
  imports Main "HOL-Library.Word"
begin

unbundle bit_operations_syntax

section \<open>JavaScript strings\<close>

text \<open>
  Strings are byte strings (\<^typ>\<open>string\<close>). \<open>String.prototype.toLowerCase\<close> is modelled on
  the ASCII letters, \<open>String.prototype.includes\<close> and \<open>startsWith\<close> as the usual substring
  and prefix tests. A falsy string (\<open>null\<close>, \<open>undefined\<close> or \<open>""\<close>) is \<open>None\<close> or \<open>Some []\<close>.
\<close>

fun startsWith :: "string \<Rightarrow> string \<Rightarrow> bool" where
  "startsWith s [] = True"
| "startsWith [] (p # ps) = False"
| "startsWith (c # cs) (p # ps) = (c = p \<and> startsWith cs ps)"

fun str_includes :: "string \<Rightarrow> string \<Rightarrow> bool" where
  "str_includes [] p = (p = [])"
| "str_includes (c # cs) p = (startsWith (c # cs) p \<or> str_includes cs p)"

definition lowerChar :: "char \<Rightarrow> char" where
  "lowerChar c =
     (let n = (of_char c :: nat) in if 65 \<le> n \<and> n \<le> 90 then char_of (n + 32) else c)"

definition toLowerCase :: "string \<Rightarrow> string" where
  "toLowerCase s = map lowerChar s"

definition truthyStr :: "string option \<Rightarrow> bool" where
  "truthyStr t = (case t of None \<Rightarrow> False | Some s \<Rightarrow> s \<noteq> [])"

text \<open>A call returns a value or throws.\<close>

datatype 'a js_result = Returned 'a | Thrown

section \<open>Error classifier (open-sse/services/accountFallback.js)\<close>

text \<open>
  \<open>COOLDOWN_MS\<close> and \<open>BACKOFF_CONFIG\<close> live in \<open>config/constants.js\<close>; the classifier only
  reads them, so they are a parameter of the model.
\<close>

record config =
  cd_unauthorized :: nat
  cd_paymentRequired :: nat
  cd_notFound :: nat
  cd_transient :: nat
  cd_requestNotAllowed :: nat
  bo_base :: nat
  bo_max :: nat
  bo_maxLevel :: nat

text \<open>
  Modelled from the spec: the \<open>HTTP_STATUS\<close> table of \<open>config/constants.js\<close>, with the
  numeric codes the spec gives for each rule of the classifier.
\<close>

definition UNAUTHORIZED :: int where "UNAUTHORIZED = 401"
definition PAYMENT_REQUIRED :: int where "PAYMENT_REQUIRED = 402"
definition FORBIDDEN :: int where "FORBIDDEN = 403"
definition NOT_FOUND :: int where "NOT_FOUND = 404"
definition NOT_ACCEPTABLE :: int where "NOT_ACCEPTABLE = 406"
definition REQUEST_TIMEOUT :: int where "REQUEST_TIMEOUT = 408"
definition RATE_LIMITED :: int where "RATE_LIMITED = 429"
definition SERVER_ERROR :: int where "SERVER_ERROR = 500"
definition BAD_GATEWAY :: int where "BAD_GATEWAY = 502"
definition SERVICE_UNAVAILABLE :: int where "SERVICE_UNAVAILABLE = 503"
definition GATEWAY_TIMEOUT :: int where "GATEWAY_TIMEOUT = 504"

lemmas HTTP_STATUS_defs =
  UNAUTHORIZED_def PAYMENT_REQUIRED_def FORBIDDEN_def NOT_FOUND_def NOT_ACCEPTABLE_def
  REQUEST_TIMEOUT_def RATE_LIMITED_def SERVER_ERROR_def BAD_GATEWAY_def
  SERVICE_UNAVAILABLE_def GATEWAY_TIMEOUT_def

text \<open>The object the classifier returns; \<open>newBackoffLevel\<close> is absent on most branches.\<close>

record fallback =
  shouldFallback :: bool
  cooldownMs :: nat
  newBackoffLevel :: "nat option"

definition getQuotaCooldown :: "config \<Rightarrow> nat \<Rightarrow> nat" where
  "getQuotaCooldown cfg backoffLevel =
     (let cooldown = bo_base cfg * 2 ^ backoffLevel in min cooldown (bo_max cfg))"

text \<open>
  \<open>checkErrorText\<close> and \<open>checkFallbackError\<close> are the classifier on the argument types its
  documentation declares, \<open>errorText\<close> being a string or absent; on any other value see
  \<open>checkFallbackErrorAny\<close> below. Lines 23 to 50 of \<open>checkFallbackError\<close>: the message
  patterns. \<open>Some r\<close> is an early \<open>return r\<close>, \<open>None\<close> falls through to the status checks.
\<close>

definition checkErrorText :: "config \<Rightarrow> string option \<Rightarrow> nat \<Rightarrow> fallback option" where
  "checkErrorText cfg errorText backoffLevel =
     (if truthyStr errorText then
        (let errorStr = (case errorText of Some s \<Rightarrow> s | None \<Rightarrow> []);
             lowerError = toLowerCase errorStr
         in if str_includes lowerError ''no credentials'' then
              Some \<lparr>shouldFallback = True, cooldownMs = cd_notFound cfg, newBackoffLevel = None\<rparr>
            else if str_includes lowerError ''request not allowed'' then
              Some \<lparr>shouldFallback = True, cooldownMs = cd_requestNotAllowed cfg,
                    newBackoffLevel = None\<rparr>
            else if str_includes lowerError ''rate limit'' \<or>
                    str_includes lowerError ''too many requests'' \<or>
                    str_includes lowerError ''quota exceeded'' \<or>
                    str_includes lowerError ''capacity'' \<or>
                    str_includes lowerError ''overloaded'' then
              (let newLevel = min (backoffLevel + 1) (bo_maxLevel cfg)
               in Some \<lparr>shouldFallback = True, cooldownMs = getQuotaCooldown cfg backoffLevel,
                        newBackoffLevel = Some newLevel\<rparr>)
            else None)
      else None)"

definition transientStatuses :: "int list" where
  "transientStatuses =
     [NOT_ACCEPTABLE, REQUEST_TIMEOUT, SERVER_ERROR, BAD_GATEWAY, SERVICE_UNAVAILABLE,
      GATEWAY_TIMEOUT]"

definition checkFallbackError :: "config \<Rightarrow> int \<Rightarrow> string option \<Rightarrow> nat \<Rightarrow> fallback" where
  "checkFallbackError cfg status errorText backoffLevel =
     (case checkErrorText cfg errorText backoffLevel of
        Some r \<Rightarrow> r
      | None \<Rightarrow>
          if status = UNAUTHORIZED then
            \<lparr>shouldFallback = True, cooldownMs = cd_unauthorized cfg, newBackoffLevel = None\<rparr>
          else if status = PAYMENT_REQUIRED \<or> status = FORBIDDEN then
            \<lparr>shouldFallback = True, cooldownMs = cd_paymentRequired cfg, newBackoffLevel = None\<rparr>
          else if status = NOT_FOUND then
            \<lparr>shouldFallback = True, cooldownMs = cd_notFound cfg, newBackoffLevel = None\<rparr>
          else if status = RATE_LIMITED then
            (let newLevel = min (backoffLevel + 1) (bo_maxLevel cfg)
             in \<lparr>shouldFallback = True, cooldownMs = getQuotaCooldown cfg backoffLevel,
                 newBackoffLevel = Some newLevel\<rparr>)
          else if List.member transientStatuses status then
            \<lparr>shouldFallback = True, cooldownMs = cd_transient cfg, newBackoffLevel = None\<rparr>
          else
            \<lparr>shouldFallback = True, cooldownMs = cd_transient cfg, newBackoffLevel = None\<rparr>)"

subsection \<open>The decision table of the specification\<close>

text \<open>
  The specification's wording of the classifier: an ordered table of rules, the first rule
  whose condition holds decides. A body "contains" a pattern without regard to letter case;
  an absent body contains nothing.
\<close>

definition bodyContains :: "string option \<Rightarrow> string \<Rightarrow> bool" where
  "bodyContains body pat =
     (case body of None \<Rightarrow> False | Some s \<Rightarrow> str_includes (toLowerCase s) pat)"

definition rateLimitKeywords :: "string list" where
  "rateLimitKeywords =
     [''rate limit'', ''too many requests'', ''quota exceeded'', ''capacity'', ''overloaded'']"

definition fixedCooldown :: "nat \<Rightarrow> fallback" where
  "fixedCooldown ms = \<lparr>shouldFallback = True, cooldownMs = ms, newBackoffLevel = None\<rparr>"

definition backoffRule :: "config \<Rightarrow> nat \<Rightarrow> fallback" where
  "backoffRule cfg n =
     \<lparr>shouldFallback = True, cooldownMs = min (bo_base cfg * 2 ^ n) (bo_max cfg),
      newBackoffLevel = Some (min (n + 1) (bo_maxLevel cfg))\<rparr>"

definition decisionTable :: "config \<Rightarrow> int \<Rightarrow> string option \<Rightarrow> nat \<Rightarrow> (bool \<times> fallback) list" where
  "decisionTable cfg status body n =
     [(bodyContains body ''no credentials'', fixedCooldown (cd_notFound cfg)),
      (bodyContains body ''request not allowed'', fixedCooldown (cd_requestNotAllowed cfg)),
      (list_ex (bodyContains body) rateLimitKeywords, backoffRule cfg n),
      (status = 401, fixedCooldown (cd_unauthorized cfg)),
      (status = 402 \<or> status = 403, fixedCooldown (cd_paymentRequired cfg)),
      (status = 404, fixedCooldown (cd_notFound cfg)),
      (status = 429, backoffRule cfg n),
      (List.member [406, 408, 500, 502, 503, 504] status, fixedCooldown (cd_transient cfg))]"

fun firstMatch :: "(bool \<times> 'a) list \<Rightarrow> 'a \<Rightarrow> 'a" where
  "firstMatch [] d = d"
| "firstMatch ((c, r) # rules) d = (if c then r else firstMatch rules d)"

definition classifySpec :: "config \<Rightarrow> int \<Rightarrow> string option \<Rightarrow> nat \<Rightarrow> fallback" where
  "classifySpec cfg status body n =
     firstMatch (decisionTable cfg status body n) (fixedCooldown (cd_transient cfg))"

subsection \<open>The classifier on any value of \<open>errorText\<close>\<close>

text \<open>
  \<open>checkFallbackError\<close> above is the classifier on the argument types its documentation
  declares: \<open>errorText\<close> a string, or absent. The source accepts any value: a falsy value
  skips the message patterns, a string is searched as it is, and any other value is first
  converted with \<open>JSON.stringify\<close>. \<open>JSON.stringify\<close> is a library function and a parameter
  of the model: it yields a text, yields \<open>undefined\<close> (on which \<open>toLowerCase\<close> then throws a
  \<open>TypeError\<close>), or throws. A value is a string, a falsy value that is not a string
  (\<open>null\<close>, \<open>undefined\<close>, \<open>0\<close>, \<open>NaN\<close>, \<open>false\<close>), or a truthy value that is not a string.
\<close>

datatype 'v jsValue = StringValue string | FalsyValue | TruthyValue 'v

datatype stringified = JsonText string | JsonUndefined | JsonThrows

text \<open>Lines 52 to 86: the status checks.\<close>

definition checkStatus :: "config \<Rightarrow> int \<Rightarrow> nat \<Rightarrow> fallback" where
  "checkStatus cfg status backoffLevel =
     (if status = UNAUTHORIZED then
        \<lparr>shouldFallback = True, cooldownMs = cd_unauthorized cfg, newBackoffLevel = None\<rparr>
      else if status = PAYMENT_REQUIRED \<or> status = FORBIDDEN then
        \<lparr>shouldFallback = True, cooldownMs = cd_paymentRequired cfg, newBackoffLevel = None\<rparr>
      else if status = NOT_FOUND then
        \<lparr>shouldFallback = True, cooldownMs = cd_notFound cfg, newBackoffLevel = None\<rparr>
      else if status = RATE_LIMITED then
        (let newLevel = min (backoffLevel + 1) (bo_maxLevel cfg)
         in \<lparr>shouldFallback = True, cooldownMs = getQuotaCooldown cfg backoffLevel,
             newBackoffLevel = Some newLevel\<rparr>)
      else if List.member transientStatuses status then
        \<lparr>shouldFallback = True, cooldownMs = cd_transient cfg, newBackoffLevel = None\<rparr>
      else
        \<lparr>shouldFallback = True, cooldownMs = cd_transient cfg, newBackoffLevel = None\<rparr>)"

text \<open>
  Line 23, \<open>if (errorText)\<close>, and line 24, the conversion: \<open>None\<close> when \<open>errorText\<close> is
  falsy, otherwise what \<open>errorStr\<close> is computed to.
\<close>

definition errorStrOf :: "('v \<Rightarrow> stringified) \<Rightarrow> 'v jsValue \<Rightarrow> stringified option" where
  "errorStrOf stringify errorText =
     (case errorText of
        StringValue s \<Rightarrow> if s = [] then None else Some (JsonText s)
      | FalsyValue \<Rightarrow> None
      | TruthyValue v \<Rightarrow> Some (stringify v))"

definition checkFallbackErrorAny ::
  "config \<Rightarrow> ('v \<Rightarrow> stringified) \<Rightarrow> int \<Rightarrow> 'v jsValue \<Rightarrow> nat \<Rightarrow> fallback js_result" where
  "checkFallbackErrorAny cfg stringify status errorText backoffLevel =
     (case errorStrOf stringify errorText of
        None \<Rightarrow> Returned (checkStatus cfg status backoffLevel)
      | Some JsonThrows \<Rightarrow> Thrown
      | Some JsonUndefined \<Rightarrow> Thrown
      | Some (JsonText errorStr) \<Rightarrow>
          (let lowerError = toLowerCase errorStr
           in if str_includes lowerError ''no credentials'' then
                Returned \<lparr>shouldFallback = True, cooldownMs = cd_notFound cfg,
                          newBackoffLevel = None\<rparr>
              else if str_includes lowerError ''request not allowed'' then
                Returned \<lparr>shouldFallback = True, cooldownMs = cd_requestNotAllowed cfg,
                          newBackoffLevel = None\<rparr>
              else if str_includes lowerError ''rate limit'' \<or>
                      str_includes lowerError ''too many requests'' \<or>
                      str_includes lowerError ''quota exceeded'' \<or>
                      str_includes lowerError ''capacity'' \<or>
                      str_includes lowerError ''overloaded'' then
                (let newLevel = min (backoffLevel + 1) (bo_maxLevel cfg)
                 in Returned \<lparr>shouldFallback = True,
                              cooldownMs = getQuotaCooldown cfg backoffLevel,
                              newBackoffLevel = Some newLevel\<rparr>)
              else Returned (checkStatus cfg status backoffLevel)))"

text \<open>
  Sample values that are not strings, with what \<open>JSON.stringify\<close> does on them: it throws a
  \<open>TypeError\<close> on an object that contains itself and on a BigInt, yields \<open>undefined\<close> for a
  function, and yields the JSON text of an object or a number.
\<close>

datatype sampleValue = CircularObject | BigIntValue | FunctionValue | JsonObject string

definition sampleStringify :: "sampleValue \<Rightarrow> stringified" where
  "sampleStringify v =
     (case v of
        CircularObject \<Rightarrow> JsonThrows
      | BigIntValue \<Rightarrow> JsonThrows
      | FunctionValue \<Rightarrow> JsonUndefined
      | JsonObject text \<Rightarrow> JsonText text)"

section \<open>Credential store and account arbiter (src/sse/services/auth.js)\<close>

text \<open>
  Instants are milliseconds since the epoch (the source keeps them as ISO strings and
  compares them through \<open>new Date(s).getTime()\<close>). Every operation takes the value of
  \<open>Date.now()\<close> as the argument \<open>now\<close>; \<open>getProviderCredentialsAt\<close> further down follows
  each reading of the clock on its own. Optional fields are \<open>option\<close> values; the two
  counters \<open>backoffLevel\<close> and \<open>consecutiveUseCount\<close> are only ever read through \<open>|| 0\<close>,
  so an absent counter is the number 0.
\<close>

type_synonym instant = nat

datatype test_status = Active | Unavailable | Expired | Error | Success

record connection =
  conn_id :: string
  provider :: string
  priority :: nat
  isActive :: bool
  apiKey :: "string option"
  accessToken :: "string option"
  refreshToken :: "string option"
  projectId :: "string option"
  providerSpecificData :: "(string \<times> string) list option"
  testStatus :: test_status
  lastError :: "string option"
  errorCode :: "int option"
  lastErrorAt :: "instant option"
  rateLimitedUntil :: "instant option"
  backoffLevel :: nat
  lastUsedAt :: "instant option"
  consecutiveUseCount :: nat

text \<open>
  The argument of \<open>updateProviderConnection\<close>: the fields an update names, \<open>None\<close> for a
  field the update does not mention. A nullable field that is set carries its new value,
  \<open>Some None\<close> for \<open>null\<close>.
\<close>

record patch =
  p_testStatus :: "test_status option"
  p_lastError :: "string option option"
  p_errorCode :: "int option option"
  p_lastErrorAt :: "instant option option"
  p_rateLimitedUntil :: "instant option option"
  p_backoffLevel :: "nat option"
  p_lastUsedAt :: "instant option option"
  p_consecutiveUseCount :: "nat option"

definition noPatch :: patch where
  "noPatch = \<lparr>p_testStatus = None, p_lastError = None, p_errorCode = None,
     p_lastErrorAt = None, p_rateLimitedUntil = None, p_backoffLevel = None,
     p_lastUsedAt = None, p_consecutiveUseCount = None\<rparr>"

definition orElse :: "'a option \<Rightarrow> 'a \<Rightarrow> 'a" where
  "orElse v d = (case v of Some x \<Rightarrow> x | None \<Rightarrow> d)"

definition applyPatch :: "patch \<Rightarrow> connection \<Rightarrow> connection" where
  "applyPatch p c =
     c\<lparr>testStatus := orElse (p_testStatus p) (testStatus c),
       lastError := orElse (p_lastError p) (lastError c),
       errorCode := orElse (p_errorCode p) (errorCode c),
       lastErrorAt := orElse (p_lastErrorAt p) (lastErrorAt c),
       rateLimitedUntil := orElse (p_rateLimitedUntil p) (rateLimitedUntil c),
       backoffLevel := orElse (p_backoffLevel p) (backoffLevel c),
       lastUsedAt := orElse (p_lastUsedAt p) (lastUsedAt c),
       consecutiveUseCount := orElse (p_consecutiveUseCount p) (consecutiveUseCount c)\<rparr>"

text \<open>
  Modelled from the spec: the Credential Store (\<open>@/lib/localDb\<close>), which is not part of the
  sources at hand. The store is the list of its connection records;
  \<open>getConnections({provider, isActive?})\<close> returns the matching records sorted by
  \<open>priority\<close> ascending, \<open>updateConnection(id, patch)\<close> rewrites the record with that id.
  A query without a provider matches every provider.
\<close>

type_synonym store = "connection list"

definition getProviderConnections :: "string option \<Rightarrow> bool option \<Rightarrow> store \<Rightarrow> connection list" where
  "getProviderConnections prov act db =
     sort_key priority
       (filter (\<lambda>c. (case prov of None \<Rightarrow> True | Some p \<Rightarrow> provider c = p) \<and>
                     (case act of None \<Rightarrow> True | Some a \<Rightarrow> isActive c = a)) db)"

definition updateProviderConnection :: "string \<Rightarrow> patch \<Rightarrow> store \<Rightarrow> store" where
  "updateProviderConnection i p db = map (\<lambda>c. if conn_id c = i then applyPatch p c else c) db"

subsection \<open>Helpers of accountFallback.js\<close>

definition isAccountUnavailable :: "instant \<Rightarrow> instant option \<Rightarrow> bool" where
  "isAccountUnavailable now unavailableUntil =
     (case unavailableUntil of None \<Rightarrow> False | Some u \<Rightarrow> u > now)"

definition getUnavailableUntil :: "instant \<Rightarrow> nat \<Rightarrow> instant" where
  "getUnavailableUntil now cooldown = now + cooldown"

text \<open>The loop of \<open>getEarliestRateLimitedUntil\<close>, with \<open>earliest\<close> as the accumulator.\<close>

fun earliestLoop :: "instant \<Rightarrow> connection list \<Rightarrow> instant option \<Rightarrow> instant option" where
  "earliestLoop now [] earliest = earliest"
| "earliestLoop now (acc # accounts) earliest =
     (case rateLimitedUntil acc of
        None \<Rightarrow> earliestLoop now accounts earliest
      | Some until \<Rightarrow>
          if until \<le> now then earliestLoop now accounts earliest
          else if (case earliest of None \<Rightarrow> True | Some e \<Rightarrow> e = 0 \<or> until < e)
            then earliestLoop now accounts (Some until)
          else earliestLoop now accounts earliest)"

definition getEarliestRateLimitedUntil :: "instant \<Rightarrow> connection list \<Rightarrow> instant option" where
  "getEarliestRateLimitedUntil now accounts =
     (case earliestLoop now accounts None of
        None \<Rightarrow> None
      | Some e \<Rightarrow> if e = 0 then None else Some e)"

function showNat :: "nat \<Rightarrow> string" where
  "showNat n =
     (if n < 10 then [char_of (48 + n)] else showNat (n div 10) @ [char_of (48 + n mod 10)])"
  by pat_completeness auto
termination
  by (relation "measure id") auto

definition joinSpace :: "string list \<Rightarrow> string" where
  "joinSpace parts = foldr (\<lambda>p r. if r = [] then p else p @ '' '' @ r) parts []"

definition formatRetryAfter :: "instant \<Rightarrow> instant option \<Rightarrow> string" where
  "formatRetryAfter now rlu =
     (case rlu of
        None \<Rightarrow> []
      | Some until \<Rightarrow>
          if until \<le> now then ''reset after 0s''
          else
            (let diffMs = until - now;
                 totalSec = (diffMs + 999) div 1000;
                 h = totalSec div 3600;
                 m = (totalSec mod 3600) div 60;
                 s = totalSec mod 60;
                 parts = (if h > 0 then [showNat h @ ''h''] else []) @
                         (if m > 0 then [showNat m @ ''m''] else []);
                 parts' = parts @ (if s > 0 \<or> parts = [] then [showNat s @ ''s''] else [])
             in ''reset after '' @ joinSpace parts'))"

subsection \<open>Array.prototype.sort\<close>

text \<open>
  \<open>Array.prototype.sort\<close> is stable: elements the comparator calls equal keep their order.
  The model is the stable insertion sort; with the comparators below, which compare one key,
  every stable sort returns the same list.
\<close>

fun js_insert :: "('a \<Rightarrow> 'a \<Rightarrow> int) \<Rightarrow> 'a \<Rightarrow> 'a list \<Rightarrow> 'a list" where
  "js_insert cmp x [] = [x]"
| "js_insert cmp x (y # ys) = (if cmp x y \<le> 0 then x # y # ys else y # js_insert cmp x ys)"

definition js_sort :: "('a \<Rightarrow> 'a \<Rightarrow> int) \<Rightarrow> 'a list \<Rightarrow> 'a list" where
  "js_sort cmp xs = foldr (js_insert cmp) xs []"

definition priorityOr999 :: "connection \<Rightarrow> int" where
  "priorityOr999 c = (if priority c = 0 then 999 else int (priority c))"

definition byRecencyCmp :: "connection \<Rightarrow> connection \<Rightarrow> int" where
  "byRecencyCmp a b =
     (case (lastUsedAt a, lastUsedAt b) of
        (None, None) \<Rightarrow> priorityOr999 a - priorityOr999 b
      | (None, Some tb) \<Rightarrow> 1
      | (Some ta, None) \<Rightarrow> - 1
      | (Some ta, Some tb) \<Rightarrow> int tb - int ta)"

definition byOldestCmp :: "connection \<Rightarrow> connection \<Rightarrow> int" where
  "byOldestCmp a b =
     (case (lastUsedAt a, lastUsedAt b) of
        (None, None) \<Rightarrow> priorityOr999 a - priorityOr999 b
      | (None, Some tb) \<Rightarrow> - 1
      | (Some ta, None) \<Rightarrow> 1
      | (Some ta, Some tb) \<Rightarrow> int ta - int tb)"

definition byRateLimitedUntilCmp :: "connection \<Rightarrow> connection \<Rightarrow> int" where
  "byRateLimitedUntilCmp a b =
     int (orElse (rateLimitedUntil a) 0) - int (orElse (rateLimitedUntil b) 0)"

subsection \<open>getProviderCredentials\<close>

record settings =
  fallbackStrategy :: string
  stickyRoundRobinLimit :: nat

record credentials =
  cr_apiKey :: "string option"
  cr_accessToken :: "string option"
  cr_refreshToken :: "string option"
  cr_projectId :: "string option"
  cr_copilotToken :: "string option"
  cr_providerSpecificData :: "(string \<times> string) list option"
  cr_connectionId :: string
  cr_testStatus :: test_status
  cr_lastError :: "string option"
  cr_rateLimitedUntil :: "instant option"

record rateLimitedInfo =
  retryAfter :: instant
  retryAfterHuman :: string
  arl_lastError :: "string option"
  arl_lastErrorCode :: "int option"

datatype selection = NoCredentials | AllRateLimited rateLimitedInfo | Selected credentials

definition credentialsOf :: "connection \<Rightarrow> credentials" where
  "credentialsOf connection =
     \<lparr>cr_apiKey = apiKey connection,
      cr_accessToken = accessToken connection,
      cr_refreshToken = refreshToken connection,
      cr_projectId = projectId connection,
      cr_copilotToken =
        (case providerSpecificData connection of
           None \<Rightarrow> None | Some d \<Rightarrow> map_of d ''copilotToken''),
      cr_providerSpecificData = providerSpecificData connection,
      cr_connectionId = conn_id connection,
      cr_testStatus = testStatus connection,
      cr_lastError = lastError connection,
      cr_rateLimitedUntil = rateLimitedUntil connection\<rparr>"

text \<open>\<open>x || null\<close> on a string and on a number.\<close>

definition strOrNull :: "string option \<Rightarrow> string option" where
  "strOrNull v = (if truthyStr v then v else None)"

definition numOrNull :: "int option \<Rightarrow> int option" where
  "numOrNull v = (case v of None \<Rightarrow> None | Some n \<Rightarrow> if n = 0 then None else Some n)"

text \<open>Lines 84 to 126: the strategy, applied to a non-empty list of available connections.\<close>

definition pickConnection ::
  "settings \<Rightarrow> instant \<Rightarrow> connection \<Rightarrow> connection list \<Rightarrow> store \<Rightarrow> connection \<times> store" where
  "pickConnection st now first availableConnections db =
     (let strategy = (if fallbackStrategy st = [] then ''fill-first'' else fallbackStrategy st)
      in if strategy = ''round-robin'' then
           (let stickyLimit =
                  (if stickyRoundRobinLimit st = 0 then 3 else stickyRoundRobinLimit st);
                byRecency = js_sort byRecencyCmp availableConnections;
                current = (case byRecency of [] \<Rightarrow> first | c # _ \<Rightarrow> c);
                currentCount = consecutiveUseCount current
            in if lastUsedAt current \<noteq> None \<and> currentCount < stickyLimit then
                 (current,
                  updateProviderConnection (conn_id current)
                    (noPatch\<lparr>p_lastUsedAt := Some (Some now),
                             p_consecutiveUseCount := Some (consecutiveUseCount current + 1)\<rparr>) db)
               else
                 (let sortedByOldest = js_sort byOldestCmp availableConnections;
                      connection = (case sortedByOldest of [] \<Rightarrow> first | c # _ \<Rightarrow> c)
                  in (connection,
                      updateProviderConnection (conn_id connection)
                        (noPatch\<lparr>p_lastUsedAt := Some (Some now),
                                 p_consecutiveUseCount := Some 1\<rparr>) db)))
         else (first, db))"

definition getProviderCredentials ::
  "settings \<Rightarrow> instant \<Rightarrow> string \<Rightarrow> string option \<Rightarrow> store \<Rightarrow> selection \<times> store" where
  "getProviderCredentials st now prov excludeConnectionId db =
     (let connections = getProviderConnections (Some prov) (Some True) db
      in if connections = [] then
           (let allConnections = getProviderConnections (Some prov) None db
            in case (if allConnections = [] then None
                     else getEarliestRateLimitedUntil now allConnections) of
                 Some earliest \<Rightarrow>
                   (AllRateLimited
                      \<lparr>retryAfter = earliest,
                       retryAfterHuman = formatRetryAfter now (Some earliest),
                       arl_lastError = None, arl_lastErrorCode = None\<rparr>, db)
               | None \<Rightarrow> (NoCredentials, db))
         else
           (let availableConnections =
                  filter (\<lambda>c. \<not> (truthyStr excludeConnectionId \<and>
                                    Some (conn_id c) = excludeConnectionId) \<and>
                                \<not> isAccountUnavailable now (rateLimitedUntil c)) connections
            in case availableConnections of
                 [] \<Rightarrow>
                   (case getEarliestRateLimitedUntil now connections of
                      Some earliest \<Rightarrow>
                        (let rateLimitedConns =
                               filter (\<lambda>c. case rateLimitedUntil c of
                                              None \<Rightarrow> False | Some u \<Rightarrow> u > now) connections;
                             earliestConn =
                               (case js_sort byRateLimitedUntilCmp rateLimitedConns of
                                  [] \<Rightarrow> None | c # _ \<Rightarrow> Some c)
                         in (AllRateLimited
                               \<lparr>retryAfter = earliest,
                                retryAfterHuman = formatRetryAfter now (Some earliest),
                                arl_lastError =
                                  (case earliestConn of
                                     None \<Rightarrow> None | Some c \<Rightarrow> strOrNull (lastError c)),
                                arl_lastErrorCode =
                                  (case earliestConn of
                                     None \<Rightarrow> None | Some c \<Rightarrow> numOrNull (errorCode c))\<rparr>, db))
                    | None \<Rightarrow> (NoCredentials, db))
               | first # _ \<Rightarrow>
                   (case pickConnection st now first availableConnections db of
                      (connection, db') \<Rightarrow> (Selected (credentialsOf connection), db'))))"

subsection \<open>getProviderCredentials with every clock reading\<close>

text \<open>
  \<open>getProviderCredentials\<close> above gives one instant to the whole call. The source reads
  the clock again and again during one call: in each call of \<open>isAccountUnavailable\<close> with a
  non-null argument (by the filter and once more by the logging loop after it), in
  \<open>getEarliestRateLimitedUntil\<close>, for each connection with a \<open>rateLimitedUntil\<close> at line 65,
  in each \<open>formatRetryAfter\<close> (one for the log line, one for the result), and in the
  \<open>new Date()\<close> of the round-robin update. Here \<open>clock k\<close> is reading number \<open>k\<close> of a call,
  counted from 0; a function that reads the clock takes the number of readings made so far
  and returns it updated. \<open>getProviderCredentialsAt\<close> returns, with the selection and the
  store, the number of readings of the call. Readings that the logger may make for itself
  are not counted: the clock is arbitrary, so what holds for every clock holds for the
  readings the code makes, whatever lies between them.
\<close>

type_synonym clock = "nat \<Rightarrow> instant"

definition isAccountUnavailableAt :: "clock \<Rightarrow> nat \<Rightarrow> instant option \<Rightarrow> bool \<times> nat" where
  "isAccountUnavailableAt clock k unavailableUntil =
     (case unavailableUntil of
        None \<Rightarrow> (False, k)
      | Some u \<Rightarrow> (u > clock k, k + 1))"

text \<open>The filter of lines 46 to 50, the logging loop of lines 53 to 59, the filter of line 65.\<close>

fun availableLoop ::
  "clock \<Rightarrow> string option \<Rightarrow> connection list \<Rightarrow> nat \<Rightarrow> connection list \<times> nat" where
  "availableLoop clock excludeConnectionId [] k = ([], k)"
| "availableLoop clock excludeConnectionId (c # cs) k =
     (if truthyStr excludeConnectionId \<and> Some (conn_id c) = excludeConnectionId
      then availableLoop clock excludeConnectionId cs k
      else
        (case isAccountUnavailableAt clock k (rateLimitedUntil c) of
           (unavailable, k1) \<Rightarrow>
             (case availableLoop clock excludeConnectionId cs k1 of
                (rest, k2) \<Rightarrow> (if unavailable then rest else c # rest, k2))))"

fun debugLoop :: "clock \<Rightarrow> connection list \<Rightarrow> nat \<Rightarrow> nat" where
  "debugLoop clock [] k = k"
| "debugLoop clock (c # cs) k =
     debugLoop clock cs (snd (isAccountUnavailableAt clock k (rateLimitedUntil c)))"

fun rateLimitedLoop :: "clock \<Rightarrow> connection list \<Rightarrow> nat \<Rightarrow> connection list \<times> nat" where
  "rateLimitedLoop clock [] k = ([], k)"
| "rateLimitedLoop clock (c # cs) k =
     (case rateLimitedUntil c of
        None \<Rightarrow> rateLimitedLoop clock cs k
      | Some u \<Rightarrow>
          (case rateLimitedLoop clock cs (k + 1) of
             (rest, k') \<Rightarrow> (if u > clock k then c # rest else rest, k')))"

definition getProviderCredentialsAt ::
  "settings \<Rightarrow> clock \<Rightarrow> string \<Rightarrow> string option \<Rightarrow> store \<Rightarrow> selection \<times> store \<times> nat" where
  "getProviderCredentialsAt st clock prov excludeConnectionId db =
     (let connections = getProviderConnections (Some prov) (Some True) db
      in if connections = [] then
           (let allConnections = getProviderConnections (Some prov) None db
            in if allConnections = [] then (NoCredentials, db, 0)
               else
                 (case getEarliestRateLimitedUntil (clock 0) allConnections of
                    Some earliest \<Rightarrow>
                      (AllRateLimited
                         \<lparr>retryAfter = earliest,
                          retryAfterHuman = formatRetryAfter (clock 2) (Some earliest),
                          arl_lastError = None, arl_lastErrorCode = None\<rparr>, db, 3)
                  | None \<Rightarrow> (NoCredentials, db, 1)))
         else
           (case availableLoop clock excludeConnectionId connections 0 of
              (available, k1) \<Rightarrow>
                (let k2 = debugLoop clock connections k1
                 in case available of
                      [] \<Rightarrow>
                        (case getEarliestRateLimitedUntil (clock k2) connections of
                           Some earliest \<Rightarrow>
                             (case rateLimitedLoop clock connections (k2 + 1) of
                                (rateLimitedConns, k3) \<Rightarrow>
                                  (let earliestConn =
                                         (case js_sort byRateLimitedUntilCmp rateLimitedConns of
                                            [] \<Rightarrow> None | c # _ \<Rightarrow> Some c)
                                   in (AllRateLimited
                                         \<lparr>retryAfter = earliest,
                                          retryAfterHuman =
                                            formatRetryAfter (clock (k3 + 1)) (Some earliest),
                                          arl_lastError =
                                            (case earliestConn of
                                               None \<Rightarrow> None
                                             | Some c \<Rightarrow> strOrNull (lastError c)),
                                          arl_lastErrorCode =
                                            (case earliestConn of
                                               None \<Rightarrow> None
                                             | Some c \<Rightarrow> numOrNull (errorCode c))\<rparr>,
                                       db, k3 + 2)))
                         | None \<Rightarrow> (NoCredentials, db, k2 + 1))
                    | first # _ \<Rightarrow>
                        (case pickConnection st (clock k2) first available db of
                           (connection, db') \<Rightarrow>
                             (Selected (credentialsOf connection), db',
                              if fallbackStrategy st = ''round-robin'' then k2 + 1 else k2)))))"

subsection \<open>markAccountUnavailable and clearAccountError\<close>

record markResult =
  mr_shouldFallback :: bool
  mr_cooldownMs :: nat

definition markAccountUnavailable ::
  "config \<Rightarrow> instant \<Rightarrow> string \<Rightarrow> int \<Rightarrow> string option \<Rightarrow> string option \<Rightarrow> store
     \<Rightarrow> markResult \<times> store" where
  "markAccountUnavailable cfg now connectionId status errorText prov db =
     (let connections = getProviderConnections prov None db;
          conn = find (\<lambda>c. conn_id c = connectionId) connections;
          level = (case conn of None \<Rightarrow> 0 | Some c \<Rightarrow> backoffLevel c);
          r = checkFallbackError cfg status errorText level
      in if \<not> shouldFallback r then (\<lparr>mr_shouldFallback = False, mr_cooldownMs = 0\<rparr>, db)
         else
           (let until = getUnavailableUntil now (cooldownMs r);
                reason = (case errorText of Some s \<Rightarrow> take 100 s | None \<Rightarrow> ''Provider error'')
            in (\<lparr>mr_shouldFallback = True, mr_cooldownMs = cooldownMs r\<rparr>,
                updateProviderConnection connectionId
                  (noPatch\<lparr>p_rateLimitedUntil := Some (Some until),
                           p_testStatus := Some Unavailable,
                           p_lastError := Some (Some reason),
                           p_errorCode := Some (Some status),
                           p_lastErrorAt := Some (Some now),
                           p_backoffLevel := Some (orElse (newBackoffLevel r) level)\<rparr>) db)))"

text \<open>
  \<open>clearAccountError\<close> returns the updates it sent to the store (none when it returns
  early) and the store afterwards. Its second argument is the credentials object that
  \<open>getProviderCredentials\<close> returned.
\<close>

definition clearPatch :: patch where
  "clearPatch = noPatch\<lparr>p_testStatus := Some Active, p_lastError := Some None,
     p_lastErrorAt := Some None, p_rateLimitedUntil := Some None, p_backoffLevel := Some 0\<rparr>"

definition clearAccountError ::
  "string \<Rightarrow> credentials \<Rightarrow> store \<Rightarrow> (string \<times> patch) list \<times> store" where
  "clearAccountError connectionId currentConnection db =
     (let hasError = (cr_testStatus currentConnection = Unavailable \<or>
                      truthyStr (cr_lastError currentConnection) \<or>
                      cr_rateLimitedUntil currentConnection \<noteq> None)
      in if \<not> hasError then ([], db)
         else ([(connectionId, clearPatch)],
               updateProviderConnection connectionId clearPatch db))"

subsection \<open>The account loop of handleSingleModelChat (src/sse/handlers/chat.js)\<close>

text \<open>
  What \<open>handleChatCore\<close> hands back, and lines 148 to 161 of the loop body: return on
  success, otherwise mark the account and either go round again with the account excluded
  or return the error response.
\<close>

record 'r chatResult =
  res_success :: bool
  res_response :: 'r
  res_status :: int
  res_error :: "string option"

datatype 'r loopStep =
  ReturnSuccess 'r
| Continue string "string option" int
| ReturnError 'r

definition afterChatCore ::
  "config \<Rightarrow> instant \<Rightarrow> string \<Rightarrow> credentials \<Rightarrow> 'r chatResult \<Rightarrow> store \<Rightarrow> 'r loopStep \<times> store" where
  "afterChatCore cfg now prov creds result db =
     (if res_success result then (ReturnSuccess (res_response result), db)
      else
        (case markAccountUnavailable cfg now (cr_connectionId creds) (res_status result)
                (res_error result) (Some prov) db of
           (mr, db') \<Rightarrow>
             if mr_shouldFallback mr then
               (Continue (cr_connectionId creds) (res_error result) (res_status result), db')
             else (ReturnError (res_response result), db')))"

subsection \<open>Consecutive failures and example data\<close>

text \<open>
  A run of failures reported for one connection: each entry is the time, the status and the
  body of one failed call; the result lists the cooldowns \<open>markAccountUnavailable\<close> returned.
\<close>

fun markAll ::
  "config \<Rightarrow> string \<Rightarrow> string option \<Rightarrow> (instant \<times> int \<times> string option) list \<Rightarrow> store
     \<Rightarrow> nat list \<times> store" where
  "markAll cfg connectionId prov [] db = ([], db)"
| "markAll cfg connectionId prov ((now, status, errorText) # failures) db =
     (case markAccountUnavailable cfg now connectionId status errorText prov db of
        (r, db') \<Rightarrow>
          (case markAll cfg connectionId prov failures db' of
             (cooldowns, db'') \<Rightarrow> (mr_cooldownMs r # cooldowns, db'')))"

text \<open>The backoff level \<open>markAccountUnavailable\<close> reads for a connection id.\<close>

definition storedLevel :: "string \<Rightarrow> string option \<Rightarrow> store \<Rightarrow> nat" where
  "storedLevel connectionId prov db =
     (case find (\<lambda>c. conn_id c = connectionId) (getProviderConnections prov None db) of
        None \<Rightarrow> 0 | Some c \<Rightarrow> backoffLevel c)"

text \<open>
  A rate-limit failure in the words of the claim (a rate-limit keyword in the body, or
  status 429), and the bodies that the two earlier rules of the classifier take first.
\<close>

definition rateLimitFailure :: "int \<Rightarrow> string option \<Rightarrow> bool" where
  "rateLimitFailure status body =
     (list_ex (bodyContains body) rateLimitKeywords \<or> status = 429)"

definition takenByEarlierRule :: "string option \<Rightarrow> bool" where
  "takenByEarlierRule body =
     (bodyContains body ''no credentials'' \<or> bodyContains body ''request not allowed'')"

text \<open>
  Example data: the backoff base and maximum are those of the comment on
  \<open>getQuotaCooldown\<close> (1 s doubling up to 2 min); the other constants are sample values.
\<close>

definition exampleConfig :: config where
  "exampleConfig =
     \<lparr>cd_unauthorized = 120000, cd_paymentRequired = 120000, cd_notFound = 120000,
      cd_transient = 30000, cd_requestNotAllowed = 5000,
      bo_base = 1000, bo_max = 120000, bo_maxLevel = 15\<rparr>"

definition newConnection :: "string \<Rightarrow> nat \<Rightarrow> connection" where
  "newConnection i prio =
     \<lparr>conn_id = i, provider = ''cursor'', priority = prio, isActive = True,
      apiKey = None, accessToken = None, refreshToken = None, projectId = None,
      providerSpecificData = None, testStatus = Active, lastError = None, errorCode = None,
      lastErrorAt = None, rateLimitedUntil = None, backoffLevel = 0, lastUsedAt = None,
      consecutiveUseCount = 0\<rparr>"

definition failedResult :: "unit chatResult" where
  "failedResult =
     \<lparr>res_success = False, res_response = (), res_status = 200, res_error = Some ''ok''\<rparr>"

text \<open>
  The stored level after the first \<open>k\<close> failures of a run, and the closed form
  \<open>min (n + k) maxLevel\<close> it is compared with.
\<close>

definition levelAfter ::
  "config \<Rightarrow> string \<Rightarrow> string option \<Rightarrow> (instant \<times> int \<times> string option) list \<Rightarrow> store
     \<Rightarrow> nat \<Rightarrow> nat" where
  "levelAfter cfg connectionId prov failures db k =
     storedLevel connectionId prov (snd (markAll cfg connectionId prov (take k failures) db))"

definition backoffLevelAfter :: "nat \<Rightarrow> nat \<Rightarrow> nat \<Rightarrow> nat" where
  "backoffLevelAfter maxLevel n k = (if k = 0 then n else min (n + k) maxLevel)"

definition exampleFailures :: "(instant \<times> int \<times> string option) list" where
  "exampleFailures =
     [(1000, 429, Some ''Rate limit exceeded''), (3000, 429, Some ''Rate limit exceeded'')]"

definition expiredSnapshot :: credentials where
  "expiredSnapshot = credentialsOf ((newConnection ''A'' 1)\<lparr>testStatus := Expired\<rparr>)"

subsection \<open>Vocabulary for the selection properties\<close>

text \<open>
  A comparator that is total and transitive, and a list whose head the comparator puts
  before (or level with) every element.
\<close>

definition preorderCmp :: "('a \<Rightarrow> 'a \<Rightarrow> int) \<Rightarrow> bool" where
  "preorderCmp cmp =
     ((\<forall>a b. cmp a b \<le> 0 \<or> cmp b a \<le> 0) \<and>
      (\<forall>a b c. cmp a b \<le> 0 \<longrightarrow> cmp b c \<le> 0 \<longrightarrow> cmp a c \<le> 0))"

definition headLeast :: "('a \<Rightarrow> 'a \<Rightarrow> int) \<Rightarrow> 'a list \<Rightarrow> bool" where
  "headLeast cmp ys = (case ys of [] \<Rightarrow> True | h # _ \<Rightarrow> list_all (\<lambda>z. cmp h z \<le> 0) ys)"

text \<open>
  The connections that pass the filter of lines 46 to 50, and what "most recently used" and
  "least recently used, nulls first" mean for one of them; connections that were never
  used are ordered among themselves by \<open>priority || 999\<close>.
\<close>

definition availableConnections :: "instant \<Rightarrow> string \<Rightarrow> string option \<Rightarrow> store \<Rightarrow> connection list" where
  "availableConnections now prov excludeConnectionId db =
     filter (\<lambda>c. \<not> (truthyStr excludeConnectionId \<and> Some (conn_id c) = excludeConnectionId) \<and>
                  \<not> isAccountUnavailable now (rateLimitedUntil c))
       (getProviderConnections (Some prov) (Some True) db)"







definition defaultSettings :: settings where
  "defaultSettings = \<lparr>fallbackStrategy = ''fill-first'', stickyRoundRobinLimit = 3\<rparr>"



definition oneInCooldown :: store where
  "oneInCooldown =
     [(newConnection ''A'' 1)\<lparr>rateLimitedUntil := Some 100\<rparr>, newConnection ''B'' 2]"

definition bothInCooldown :: store where
  "bothInCooldown =
     [(newConnection ''A'' 1)\<lparr>rateLimitedUntil := Some 90, lastError := Some ''slow down'',
        errorCode := Some 429\<rparr>,
      (newConnection ''B'' 2)\<lparr>rateLimitedUntil := Some 70, lastError := Some ''bad gateway'',
        errorCode := Some 502\<rparr>]"





section \<open>Token refresh retry (open-sse/services/tokenRefresh.js)\<close>

text \<open>
  \<open>refreshWithRetry(refreshFn, maxRetries, log)\<close>. An awaited call of \<open>refreshFn\<close> resolves
  with a token (\<open>Some\<close>), resolves with a falsy value (\<open>None\<close>) or rejects with a value;
  \<open>refreshFn k\<close> is the outcome of call number \<open>k\<close>, counted from 0. Of the value a call
  rejects with, the \<open>catch\<close> block reads \<open>error.message\<close> inside a template string: the
  value is \<open>null\<close> or \<open>undefined\<close> (\<open>Nullish\<close>), where that read throws a \<open>TypeError\<close>, or it
  is a value whose message the template renders as a text.

  The logger is \<open>null\<close> (\<open>None\<close>) or an object whose methods \<open>debug\<close>, \<open>warn\<close> and \<open>error\<close>
  may be missing; a method is the function from its two arguments to \<open>True\<close> when the call
  returns and \<open>False\<close> when it throws. An optional call \<open>log?.m?.(a, b)\<close> evaluates its
  arguments only when \<open>log\<close> and \<open>log.m\<close> are present.

  The run records how the function ends (a returned token, \<open>null\<close>, or an exception that
  leaves \<open>refreshWithRetry\<close>), the delays slept in order, and the number of calls of
  \<open>refreshFn\<close>.
\<close>

datatype rejection = Nullish | ErrorValue string

datatype 'a outcome = Resolves "'a option" | Rejects rejection

type_synonym logMethod = "string \<Rightarrow> string \<Rightarrow> bool"

record logger =
  lg_debug :: "logMethod option"
  lg_warn :: "logMethod option"
  lg_error :: "logMethod option"

definition optionalCall ::
  "logger option \<Rightarrow> (logger \<Rightarrow> logMethod option) \<Rightarrow> string js_result \<Rightarrow> bool" where
  "optionalCall log method message =
     (case log of
        None \<Rightarrow> True
      | Some l \<Rightarrow>
          (case method l of
             None \<Rightarrow> True
           | Some m \<Rightarrow>
               (case message of
                  Thrown \<Rightarrow> False
                | Returned text \<Rightarrow> m ''TOKEN_REFRESH'' text)))"

definition retryMessage :: "nat \<Rightarrow> nat \<Rightarrow> nat \<Rightarrow> string" where
  "retryMessage attempt maxRetries delay =
     ''Retry '' @ showNat attempt @ ''/'' @ showNat maxRetries @ '' after '' @ showNat delay @
     ''ms''"

definition failedMessage :: "nat \<Rightarrow> nat \<Rightarrow> rejection \<Rightarrow> string js_result" where
  "failedMessage attempt maxRetries err =
     (case err of
        Nullish \<Rightarrow> Thrown
      | ErrorValue message \<Rightarrow>
          Returned (''Attempt '' @ showNat (attempt + 1) @ ''/'' @ showNat maxRetries @
                    '' failed: '' @ message))"

definition allFailedMessage :: "nat \<Rightarrow> string" where
  "allFailedMessage maxRetries = ''All '' @ showNat maxRetries @ '' retry attempts failed''"

record 'a retryRun =
  rr_result :: "'a option js_result"
  rr_delays :: "nat list"
  rr_calls :: nat

function retryLoop ::
  "(nat \<Rightarrow> 'a outcome) \<Rightarrow> nat \<Rightarrow> logger option \<Rightarrow> nat \<Rightarrow> nat list \<Rightarrow> 'a retryRun" where
  "retryLoop refreshFn maxRetries log attempt delays =
     (if attempt < maxRetries then
        (if attempt > 0 \<and>
            \<not> optionalCall log lg_debug
                (Returned (retryMessage attempt maxRetries (attempt * 1000)))
         then \<lparr>rr_result = Thrown, rr_delays = delays, rr_calls = attempt\<rparr>
         else
           (let delays' = (if attempt > 0 then delays @ [attempt * 1000] else delays)
            in case refreshFn attempt of
                 Resolves (Some result) \<Rightarrow>
                   \<lparr>rr_result = Returned (Some result), rr_delays = delays',
                    rr_calls = attempt + 1\<rparr>
               | Resolves None \<Rightarrow> retryLoop refreshFn maxRetries log (attempt + 1) delays'
               | Rejects err \<Rightarrow>
                   if optionalCall log lg_warn (failedMessage attempt maxRetries err)
                   then retryLoop refreshFn maxRetries log (attempt + 1) delays'
                   else \<lparr>rr_result = Thrown, rr_delays = delays', rr_calls = attempt + 1\<rparr>))
      else
        (if optionalCall log lg_error (Returned (allFailedMessage maxRetries))
         then \<lparr>rr_result = Returned None, rr_delays = delays, rr_calls = attempt\<rparr>
         else \<lparr>rr_result = Thrown, rr_delays = delays, rr_calls = attempt\<rparr>))"
  by pat_completeness auto
termination
  by (relation "measure (\<lambda>(f, maxRetries, log, attempt, delays). maxRetries - attempt)") auto

definition refreshWithRetry ::
  "(nat \<Rightarrow> 'a outcome) \<Rightarrow> nat \<Rightarrow> logger option \<Rightarrow> 'a retryRun" where
  "refreshWithRetry refreshFn maxRetries log = retryLoop refreshFn maxRetries log 0 []"




text \<open>Sample behaviours of \<open>refreshFn\<close> and a logger whose three methods return.\<close>

definition alwaysRejects :: "nat \<Rightarrow> unit outcome" where
  "alwaysRejects k = Rejects (ErrorValue ''network error'')"



definition plainLogger :: logger where
  "plainLogger =
     \<lparr>lg_debug = Some (\<lambda>a b. True), lg_warn = Some (\<lambda>a b. True),
      lg_error = Some (\<lambda>a b. True)\<rparr>"

declare retryLoop.simps [simp del]

section \<open>JavaScript integer operators\<close>

text \<open>
  Numbers are integers here. The bitwise operators first convert an operand to a signed
  32-bit integer (\<open>ToInt32\<close>, wrap-around modulo \<open>2 ^ 32\<close>); a shift uses its count
  modulo 32; \<open>>>\<close> is the arithmetic shift, \<open>>>>\<close> the shift of the unsigned value.
\<close>

definition toInt32 :: "int \<Rightarrow> int" where
  "toInt32 x = (x + 2 ^ 31) mod 2 ^ 32 - 2 ^ 31"

definition js_shr :: "int \<Rightarrow> nat \<Rightarrow> int" where
  "js_shr x n = toInt32 x div 2 ^ (n mod 32)"

definition js_shl :: "int \<Rightarrow> nat \<Rightarrow> int" where
  "js_shl x n = toInt32 (toInt32 x * 2 ^ (n mod 32))"

definition js_and :: "int \<Rightarrow> int \<Rightarrow> int" where
  "js_and x y = toInt32 x AND toInt32 y"

definition js_or :: "int \<Rightarrow> int \<Rightarrow> int" where
  "js_or x y = toInt32 x OR toInt32 y"

definition js_xor :: "int \<Rightarrow> int \<Rightarrow> int" where
  "js_xor x y = toInt32 x XOR toInt32 y"

definition js_ushr :: "int \<Rightarrow> nat \<Rightarrow> int" where
  "js_ushr x n = (x mod 2 ^ 32) div 2 ^ (n mod 32)"

section \<open>Cursor checksum (open-sse/executors/cursor.js, generateChecksum)\<close>

text \<open>
  \<open>generateChecksum\<close> with the value of \<open>Date.now()\<close> as an argument. The byte array is a
  \<open>Uint8Array\<close>; every value stored in it here is already masked with \<open>0xFF\<close>. A string
  index out of range gives \<open>undefined\<close>, which \<open>+=\<close> appends as the text "undefined".
\<close>

definition timestampBytes :: "int \<Rightarrow> int list" where
  "timestampBytes timestamp =
     [js_and (js_shr timestamp 40) 255,
      js_and (js_shr timestamp 32) 255,
      js_and (js_shr timestamp 24) 255,
      js_and (js_shr timestamp 16) 255,
      js_and (js_shr timestamp 8) 255,
      js_and timestamp 255]"

fun jyhLoop :: "int list \<Rightarrow> nat \<Rightarrow> int \<Rightarrow> int list" where
  "jyhLoop [] i t = []"
| "jyhLoop (b # byteArray) i t =
     (let b' = js_and (js_xor b t + int (i mod 256)) 255
      in b' # jyhLoop byteArray (i + 1) b')"

definition alphabet :: string where
  "alphabet = ''ABCDEFGHIJKLMNOPQRSTUVWXYZabcdefghijklmnopqrstuvwxyz0123456789-_''"

definition alphabetAt :: "int \<Rightarrow> string" where
  "alphabetAt i = (if 0 \<le> i \<and> i < 64 then [alphabet ! nat i] else ''undefined'')"

fun encodeLoop :: "int list \<Rightarrow> string" where
  "encodeLoop [] = []"
| "encodeLoop [a] =
     alphabetAt (js_shr a 2) @ alphabetAt (js_or (js_shl (js_and a 3) 4) (js_shr 0 4))"
| "encodeLoop [a, b] =
     alphabetAt (js_shr a 2) @ alphabetAt (js_or (js_shl (js_and a 3) 4) (js_shr b 4)) @
     alphabetAt (js_or (js_shl (js_and b 15) 2) (js_shr 0 6))"
| "encodeLoop (a # b # c # byteArray) =
     alphabetAt (js_shr a 2) @ alphabetAt (js_or (js_shl (js_and a 3) 4) (js_shr b 4)) @
     alphabetAt (js_or (js_shl (js_and b 15) 2) (js_shr c 6)) @
     alphabetAt (js_and c 63) @ encodeLoop byteArray"

definition generateChecksum :: "int \<Rightarrow> string \<Rightarrow> string" where
  "generateChecksum now machineId =
     (let timestamp = now div 1000000;
          byteArray = jyhLoop (timestampBytes timestamp) 0 165
      in encodeLoop byteArray @ machineId)"

subsection \<open>The checksum in the words of the specification\<close>

text \<open>
  The 48-bit timestamp written big-endian in 6 bytes, the rolling cipher
  \<open>b[i] = ((b[i] XOR k) + (i mod 256)) AND 0xFF\<close> with \<open>k\<close> starting at 165 and then the
  last output byte, and URL-safe base64 without padding of the 6 bytes (8 characters, each 6
  bits of the 48-bit number).
\<close>

definition bigEndian6 :: "int \<Rightarrow> int list" where
  "bigEndian6 t = map (\<lambda>k. (t div 256 ^ (5 - k)) mod 256) [0..<6]"

fun jyhCipher :: "int list \<Rightarrow> nat \<Rightarrow> int \<Rightarrow> int list" where
  "jyhCipher [] i k = []"
| "jyhCipher (b # bs) i k =
     (let out = ((b XOR k) + int (i mod 256)) mod 256 in out # jyhCipher bs (i + 1) out)"

definition base64url6 :: "int list \<Rightarrow> string" where
  "base64url6 bytes =
     (let n = foldl (\<lambda>acc b. acc * 256 + b) 0 bytes
      in map (\<lambda>j. alphabet ! nat ((n div 64 ^ (7 - j)) mod 64)) [0..<8])"

definition jyhEncode :: "int \<Rightarrow> string" where
  "jyhEncode t = base64url6 (jyhCipher (bigEndian6 t) 0 165)"

definition checksumSpec :: "int \<Rightarrow> string \<Rightarrow> string" where
  "checksumSpec now machineId = jyhEncode (now div 1000000) @ machineId"

section \<open>Cursor request encoding (open-sse/utils/cursorProtobuf.js)\<close>

text \<open>
  A \<open>Uint8Array\<close> is the list of its elements, integers from 0 to 255. Strings are byte
  strings, so \<open>TextEncoder.encode\<close> yields the bytes of the string. The values a field can
  be given are a number, a string, bytes, or anything else (which \<open>encodeField\<close> encodes as
  no bytes). Every varint call site of the source passes a number; for a varint field given
  another value JavaScript would coerce the value to a number, which the model does not
  follow: it encodes 0 there.
\<close>

type_synonym bytes = "int list"

definition utf8Bytes :: "string \<Rightarrow> bytes" where
  "utf8Bytes s = map (\<lambda>c. int (of_char c)) s"

function encodeVarint :: "int \<Rightarrow> bytes" where
  "encodeVarint v =
     (if v \<ge> 128 then js_or (js_and v 127) 128 # encodeVarint (js_ushr v 7)
      else [js_and v 127])"
  by pat_completeness auto
termination
proof (relation "measure nat")
  show "wf (measure nat)" by simp
next
  fix v :: int
  assume a: "128 \<le> v"
  have "v mod 2 ^ 32 \<le> v" using a by (simp add: zmod_le_nonneg_dividend)
  then have "(v mod 2 ^ 32) div 2 ^ 7 \<le> v div 2 ^ 7" by (simp add: zdiv_mono1)
  also have "\<dots> < v" using a by simp
  finally show "(js_ushr v 7, v) \<in> measure nat"
    using a by (simp add: js_ushr_def)
qed

datatype fieldValue = Num int | Str string | Bytes bytes | Other

definition encodeField :: "int \<Rightarrow> int \<Rightarrow> fieldValue \<Rightarrow> bytes" where
  "encodeField fieldNum wireType v =
     (let tag = js_or (js_shl fieldNum 3) wireType;
          tagBytes = encodeVarint tag
      in if wireType = 0 then
           tagBytes @ encodeVarint (case v of Num n \<Rightarrow> n | _ \<Rightarrow> 0)
         else if wireType = 2 then
           (let dataBytes = (case v of Str s \<Rightarrow> utf8Bytes s | Bytes b \<Rightarrow> b | _ \<Rightarrow> [])
            in tagBytes @ encodeVarint (int (length dataBytes)) @ dataBytes)
         else [])"

definition encodeMessage :: "fieldValue \<Rightarrow> int \<Rightarrow> string \<Rightarrow> int option \<Rightarrow> bytes" where
  "encodeMessage content role messageId chatModeEnum =
     encodeField 1 2 content @ encodeField 2 0 (Num role) @ encodeField 13 2 (Str messageId) @
     (case chatModeEnum of None \<Rightarrow> [] | Some e \<Rightarrow> encodeField 47 0 (Num e))"

definition encodeInstruction :: "string \<Rightarrow> bytes" where
  "encodeInstruction instructionText =
     (if instructionText = [] then [] else encodeField 1 2 (Str instructionText))"

definition encodeModel :: "string \<Rightarrow> bytes" where
  "encodeModel modelName = encodeField 1 2 (Str modelName) @ encodeField 4 2 (Bytes [])"

definition encodeCursorSetting :: bytes where
  "encodeCursorSetting =
     (let unknown6 = encodeField 1 2 (Bytes []) @ encodeField 2 2 (Bytes [])
      in encodeField 1 2 (Str (''cursor'' @ [CHR 0x5C] @ ''aisettings'')) @
         encodeField 3 2 (Bytes []) @ encodeField 6 2 (Bytes unknown6) @
         encodeField 8 0 (Num 1) @ encodeField 9 0 (Num 1))"

text \<open>
  What the encoder reads from its surroundings: the \<open>process\<close> object, the clock as an ISO
  string, and \<open>uuidv4\<close>, whose \<open>k\<close>-th draw is \<open>uuidv4 env k\<close> (one draw per message,
  then one for the conversation id).
\<close>

record processEnv =
  platform :: string
  arch :: string
  version :: string
  cwd :: string
  isoTime :: string
  uuidv4 :: "nat \<Rightarrow> string"

definition orStr :: "string \<Rightarrow> string \<Rightarrow> string" where
  "orStr s d = (if s = [] then d else s)"

definition encodeMetadata :: "processEnv \<Rightarrow> bytes" where
  "encodeMetadata env =
     encodeField 1 2 (Str (orStr (platform env) ''linux'')) @
     encodeField 2 2 (Str (orStr (arch env) ''x64'')) @
     encodeField 3 2 (Str (orStr (version env) ''v20.0.0'')) @
     encodeField 4 2 (Str (orStr (cwd env) ''/'')) @
     encodeField 5 2 (Str (isoTime env))"

definition encodeMessageId :: "string \<Rightarrow> int \<Rightarrow> string option \<Rightarrow> bytes" where
  "encodeMessageId messageId role summaryId =
     encodeField 1 2 (Str messageId) @
     (if truthyStr summaryId then encodeField 2 2 (Str (orElse summaryId [])) else []) @
     encodeField 3 0 (Num role)"

record message =
  msg_role :: string
  msg_content :: fieldValue

definition roleOf :: "message \<Rightarrow> int" where
  "roleOf msg = (if msg_role msg = ''user'' then 1 else 2)"

definition encodeRequest :: "processEnv \<Rightarrow> message list \<Rightarrow> string \<Rightarrow> bytes" where
  "encodeRequest env messages modelName =
     (let ids = map (uuidv4 env) [0..<length messages]
      in concat (map (\<lambda>(msg, msgId).
              encodeField 1 2 (Bytes (encodeMessage (msg_content msg) (roleOf msg) msgId
                (if roleOf msg = 1 then Some 1 else None)))) (zip messages ids)) @
         encodeField 2 0 (Num 1) @
         encodeField 3 2 (Bytes (encodeInstruction [])) @
         encodeField 4 0 (Num 1) @
         (if modelName \<noteq> [] then encodeField 5 2 (Bytes (encodeModel modelName)) else []) @
         encodeField 8 2 (Str []) @
         encodeField 13 0 (Num 1) @
         encodeField 15 2 (Bytes encodeCursorSetting) @
         encodeField 19 0 (Num 1) @
         encodeField 23 2 (Str (uuidv4 env (length messages))) @
         encodeField 26 2 (Bytes (encodeMetadata env)) @
         encodeField 27 0 (Num 0) @
         concat (map (\<lambda>(msg, msgId).
              encodeField 30 2 (Bytes (encodeMessageId msgId (roleOf msg) None)))
            (zip messages ids)) @
         encodeField 35 0 (Num 0) @
         encodeField 38 0 (Num 0) @
         encodeField 46 0 (Num 1) @
         encodeField 47 2 (Str []) @
         encodeField 48 0 (Num 0) @
         encodeField 49 0 (Num 0) @
         encodeField 51 0 (Num 0) @
         encodeField 53 0 (Num 1) @
         encodeField 54 2 (Str ''Ask''))"

definition buildChatRequest :: "processEnv \<Rightarrow> message list \<Rightarrow> string \<Rightarrow> bytes" where
  "buildChatRequest env messages modelName =
     encodeField 1 2 (Bytes (encodeRequest env messages modelName))"

subsection \<open>ConnectRPC framing\<close>

text \<open>
  \<open>zlib.gzipSync\<close> and \<open>zlib.gunzipSync\<close> are library functions and a parameter of the
  model; \<open>gunzipSync\<close> answers \<open>None\<close> where the library throws.
  \<open>Uint8Array.prototype.slice\<close> counts a negative index from the end and clamps both
  indices to the array.
\<close>

record zlib =
  gzipSync :: "bytes \<Rightarrow> bytes"
  gunzipSync :: "bytes \<Rightarrow> bytes option"

definition wrapConnectRPCFrame :: "zlib \<Rightarrow> bytes \<Rightarrow> bool \<Rightarrow> bytes" where
  "wrapConnectRPCFrame z payload compress =
     (let finalPayload = (if compress then gzipSync z payload else payload);
          flags = (if compress then 1 else 0);
          len = int (length finalPayload)
      in [flags,
          js_and (js_shr len 24) 255,
          js_and (js_shr len 16) 255,
          js_and (js_shr len 8) 255,
          js_and len 255] @ finalPayload)"

definition generateCursorBody :: "zlib \<Rightarrow> processEnv \<Rightarrow> message list \<Rightarrow> string \<Rightarrow> bytes" where
  "generateCursorBody z env messages modelName =
     (let protobuf = buildChatRequest env messages modelName;
          shouldCompress = (length messages \<ge> 3)
      in wrapConnectRPCFrame z protobuf shouldCompress)"

definition js_slice :: "'a list \<Rightarrow> int \<Rightarrow> int \<Rightarrow> 'a list" where
  "js_slice xs start fin =
     (let len = int (length xs);
          k = (if start < 0 then max (len + start) 0 else min start len);
          e = (if fin < 0 then max (len + fin) 0 else min fin len)
      in take (nat (e - k)) (drop (nat k) xs))"

record frame =
  fr_flags :: int
  fr_length :: int
  fr_payload :: bytes
  fr_consumed :: int

definition parseConnectRPCFrame :: "zlib \<Rightarrow> bytes \<Rightarrow> frame option" where
  "parseConnectRPCFrame z buffer =
     (if length buffer < 5 then None
      else
        (let flags = buffer ! 0;
             len = js_or (js_or (js_or (js_shl (buffer ! 1) 24) (js_shl (buffer ! 2) 16))
                     (js_shl (buffer ! 3) 8)) (buffer ! 4)
         in if int (length buffer) < 5 + len then None
            else
              (let payload = js_slice buffer 5 (5 + len);
                   payload' = (if flags = 1 then
                                 (case gunzipSync z payload of Some p \<Rightarrow> p | None \<Rightarrow> payload)
                               else payload)
               in Some \<lparr>fr_flags = flags, fr_length = len, fr_payload = payload',
                         fr_consumed = 5 + len\<rparr>)))"


text \<open>
  Example data: a stand-in codec that satisfies \<open>gunzipSync (gzipSync x) = x\<close> (it puts the
  two gzip magic bytes in front), an environment, small message lists, and two user
  messages of \<open>2 ^ 30\<close> bytes each.
\<close>

definition storedZlib :: zlib where
  "storedZlib =
     \<lparr>gzipSync = (\<lambda>x. 31 # 139 # x),
      gunzipSync = (\<lambda>x. case x of a # b # r \<Rightarrow> if a = 31 \<and> b = 139 then Some r else None
                              | _ \<Rightarrow> None)\<rparr>"

definition exampleEnv :: processEnv where
  "exampleEnv =
     \<lparr>platform = ''linux'', arch = ''x64'', version = ''v20.0.0'', cwd = ''/'',
      isoTime = ''2025-11-01T00:00:00.000Z'', uuidv4 = (\<lambda>k. ''id'')\<rparr>"

definition hugeText :: string where
  "hugeText = replicate (2 ^ 30) (CHR ''a'')"

definition hugeMessages :: "message list" where
  "hugeMessages =
     [\<lparr>msg_role = ''user'', msg_content = Str hugeText\<rparr>,
      \<lparr>msg_role = ''user'', msg_content = Str hugeText\<rparr>]"

definition userMessage :: "string \<Rightarrow> message" where
  "userMessage s = \<lparr>msg_role = ''user'', msg_content = Str s\<rparr>"

definition twoMessages :: "message list" where
  "twoMessages = [userMessage ''hello'', userMessage ''again'']"

definition fourMessages :: "message list" where
  "fourMessages =
     [userMessage ''hello'', \<lparr>msg_role = ''assistant'', msg_content = Str ''hi''\<rparr>,
      userMessage ''again'', userMessage ''bye'']"

section \<open>Cursor response decoding (open-sse/utils/cursorProtobuf.js, open-sse/executors/cursor.js)\<close>

text \<open>
  Positions are integers: \<open>decodeField\<close> adds a decoded length, which is a signed 32-bit
  number, to a position, so a position can fall below zero. A typed array read outside its
  bounds gives \<open>undefined\<close>, which the operator \<open>&\<close> converts to 0; the decoder reads array
  elements only as operands of \<open>&\<close>.
\<close>

definition bitsAt :: "bytes \<Rightarrow> int \<Rightarrow> int" where
  "bitsAt buffer pos = (if 0 \<le> pos \<and> pos < int (length buffer) then buffer ! nat pos else 0)"

function decodeVarintLoop :: "bytes \<Rightarrow> int \<Rightarrow> nat \<Rightarrow> int \<Rightarrow> int \<times> int" where
  "decodeVarintLoop buffer result shift pos =
     (if pos < int (length buffer) then
        (let b = bitsAt buffer pos;
             result' = js_or result (js_shl (js_and b 127) shift);
             pos' = pos + 1
         in if js_and b 128 = 0 then (result', pos')
            else decodeVarintLoop buffer result' (shift + 7) pos')
      else (result, pos))"
  by pat_completeness auto
termination
  by (relation "measure (\<lambda>(buffer, result, shift, pos). nat (int (length buffer) - pos))") auto

definition decodeVarint :: "bytes \<Rightarrow> int \<Rightarrow> int \<times> int" where
  "decodeVarint buffer offset = decodeVarintLoop buffer 0 0 offset"

datatype wireValue = VNum int | VBytes bytes | VNull

text \<open>
  \<open>decodeField\<close> returns \<open>[fieldNum, wireType, value, newOffset]\<close>; the answer
  \<open>[null, null, null, offset]\<close> at the end of the buffer is \<open>None\<close>.
\<close>

definition decodeField :: "bytes \<Rightarrow> int \<Rightarrow> (int \<times> int \<times> wireValue \<times> int) option" where
  "decodeField buffer offset =
     (if offset \<ge> int (length buffer) then None
      else
        (let (tag, pos1) = decodeVarint buffer offset;
             fieldNum = js_shr tag 3;
             wireType = js_and tag 7
         in if wireType = 0 then
              (let (v, pos) = decodeVarint buffer pos1
               in Some (fieldNum, wireType, VNum v, pos))
            else if wireType = 2 then
              (let (len, pos2) = decodeVarint buffer pos1
               in Some (fieldNum, wireType, VBytes (js_slice buffer pos2 (pos2 + len)), pos2 + len))
            else if wireType = 1 then
              Some (fieldNum, wireType, VBytes (js_slice buffer pos1 (pos1 + 8)), pos1 + 8)
            else if wireType = 5 then
              Some (fieldNum, wireType, VBytes (js_slice buffer pos1 (pos1 + 4)), pos1 + 4)
            else Some (fieldNum, wireType, VNull, pos1)))"

text \<open>
  A JavaScript \<open>Map\<close> is the list of its entries in insertion order: \<open>set\<close> replaces the
  value of a key that is present, in place, and appends a new key.
\<close>

fun mapSet :: "'k \<Rightarrow> 'v \<Rightarrow> ('k \<times> 'v) list \<Rightarrow> ('k \<times> 'v) list" where
  "mapSet k v [] = [(k, v)]"
| "mapSet k v ((k', v') # m) = (if k' = k then (k, v) # m else (k', v') # mapSet k v m)"

definition mapHas :: "('k \<times> 'v) list \<Rightarrow> 'k \<Rightarrow> bool" where
  "mapHas m k = (map_of m k \<noteq> None)"

record entry =
  e_wireType :: int
  e_value :: wireValue

type_synonym fieldMap = "(int \<times> entry list) list"

definition pushField :: "int \<Rightarrow> entry \<Rightarrow> fieldMap \<Rightarrow> fieldMap" where
  "pushField fieldNum e fieldsMap =
     (let fieldsMap' = (if \<not> mapHas fieldsMap fieldNum then mapSet fieldNum [] fieldsMap else fieldsMap)
      in case map_of fieldsMap' fieldNum of
           Some es \<Rightarrow> mapSet fieldNum (es @ [e]) fieldsMap'
         | None \<Rightarrow> fieldsMap')"

text \<open>
  The loop of \<open>decodeMessage\<close> need not end: a length-delimited field whose length decodes
  to a negative number moves the position backwards. The model answers \<open>None\<close> for a run
  that does not return.
\<close>

partial_function (option) decodeMessageLoop :: "bytes \<Rightarrow> int \<Rightarrow> fieldMap \<Rightarrow> fieldMap option" where
  "decodeMessageLoop data pos fieldsMap =
     (if pos < int (length data) then
        (case decodeField data pos of
           None \<Rightarrow> Some fieldsMap
         | Some r \<Rightarrow>
             decodeMessageLoop data (snd (snd (snd r)))
               (pushField (fst r) \<lparr>e_wireType = fst (snd r), e_value = fst (snd (snd r))\<rparr> fieldsMap))
      else Some fieldsMap)"

declare decodeMessageLoop.simps [code]

definition decodeMessage :: "bytes \<Rightarrow> fieldMap option" where
  "decodeMessage data = decodeMessageLoop data 0 []"

text \<open>
  \<open>extractTextFromResponse\<close> returns an object with the properties \<open>text\<close> and \<open>error\<close>
  only; the property \<open>toolCall\<close> that the executor reads from it is \<open>undefined\<close>, here
  \<open>None\<close>. \<open>TextDecoder.decode\<close> is a parameter.
\<close>

record toolCall =
  tc_id :: string
  tc_type :: string
  tc_name :: string
  tc_arguments :: string
  tc_isLast :: bool

record extracted =
  ex_text :: "string option"
  ex_error :: "string option"
  ex_toolCall :: "toolCall option"

text \<open>The inner loop over \<open>nested.get(1)\<close>: the first entry that decodes to a non-empty text.\<close>

fun firstText :: "(bytes \<Rightarrow> string) \<Rightarrow> entry list \<Rightarrow> string option" where
  "firstText decode [] = None"
| "firstText decode (e # es) =
     (if e_wireType e = 2 then
        (case e_value e of
           VBytes nv \<Rightarrow>
             (let text = decode nv in if text \<noteq> [] then Some text else firstText decode es)
         | _ \<Rightarrow> firstText decode es)
      else firstText decode es)"

text \<open>
  The outer loop over \<open>fields.get(2)\<close>. The outer \<open>option\<close> is \<open>None\<close> when a nested
  \<open>decodeMessage\<close> does not return; the inner one is the text found, if any.
\<close>

fun searchField2 :: "(bytes \<Rightarrow> string) \<Rightarrow> entry list \<Rightarrow> string option option" where
  "searchField2 decode [] = Some None"
| "searchField2 decode (e # es) =
     (if e_wireType e = 2 then
        (case e_value e of
           VBytes v \<Rightarrow>
             (case decodeMessage v of
                None \<Rightarrow> None
              | Some nested \<Rightarrow>
                  (case (if mapHas nested 1 then
                           (case map_of nested 1 of Some es1 \<Rightarrow> firstText decode es1 | None \<Rightarrow> None)
                         else None) of
                     Some text \<Rightarrow> Some (Some text)
                   | None \<Rightarrow> searchField2 decode es))
         | _ \<Rightarrow> searchField2 decode es)
      else searchField2 decode es)"

definition extractTextFromResponse :: "(bytes \<Rightarrow> string) \<Rightarrow> bytes \<Rightarrow> extracted option" where
  "extractTextFromResponse decode payload =
     (case decodeMessage payload of
        None \<Rightarrow> None
      | Some fieldsMap \<Rightarrow>
          (case (if mapHas fieldsMap 2 then
                   (case map_of fieldsMap 2 of Some es \<Rightarrow> searchField2 decode es | None \<Rightarrow> Some None)
                 else Some None) of
             None \<Rightarrow> None
           | Some (Some text) \<Rightarrow> Some \<lparr>ex_text = Some text, ex_error = None, ex_toolCall = None\<rparr>
           | Some None \<Rightarrow> Some \<lparr>ex_text = None, ex_error = None, ex_toolCall = None\<rparr>))"

subsection \<open>The frame loop of \<open>transformProtobufToJSON\<close>\<close>

text \<open>
  \<open>Buffer.toString("utf-8")\<close>, \<open>TextDecoder.decode\<close>, \<open>JSON.parse\<close> (\<open>None\<close> where it throws)
  and \<open>zlib\<close> are parameters. The response is kept abstract: the error response built from
  a parsed JSON error, the rate-limit response with its message, or the completion with its
  content and tool calls.
\<close>

record 'j runtime =
  rt_zlib :: zlib
  toStringUtf8 :: "bytes \<Rightarrow> string"
  textDecode :: "bytes \<Rightarrow> string"
  jsonParse :: "string \<Rightarrow> 'j option"

record finalToolCall =
  ft_id :: string
  ft_type :: string
  ft_name :: string
  ft_arguments :: string

datatype 'j response =
    ErrorResponse 'j
  | RateLimitResponse string
  | Completion "string option" "finalToolCall list"

definition errorPrefix :: string where
  "errorPrefix = [CHR ''{'', CHR 0x22] @ ''error'' @ [CHR 0x22]"

definition errorKey :: string where
  "errorKey = [CHR 0x22] @ ''error'' @ [CHR 0x22]"

text \<open>\<open>decompressPayload\<close> always returns a buffer; the \<open>option\<close> keeps the shape of the caller's test \<open>!payload\<close>.\<close>

definition decompressPayload :: "'j runtime \<Rightarrow> bytes \<Rightarrow> int \<Rightarrow> bytes option" where
  "decompressPayload rt payload flags =
     (if length payload > 10 \<and> payload ! 0 = 123 \<and> payload ! 1 = 34 \<and>
         startsWith (toStringUtf8 rt payload) errorPrefix
      then Some payload
      else if flags = 1 \<or> flags = 2 \<or> flags = 3 then
        (case gunzipSync (rt_zlib rt) payload of Some p \<Rightarrow> Some p | None \<Rightarrow> Some payload)
      else Some payload)"

text \<open>\<open>readUInt32BE\<close> is called with four bytes available (the loop checks \<open>offset + 5\<close> first).\<close>

definition readUInt32BE :: "bytes \<Rightarrow> nat \<Rightarrow> nat" where
  "readUInt32BE buffer i =
     nat (buffer ! i * 2 ^ 24 + buffer ! (i + 1) * 2 ^ 16 + buffer ! (i + 2) * 2 ^ 8 +
          buffer ! (i + 3))"

definition finalOf :: "toolCall \<Rightarrow> finalToolCall" where
  "finalOf tc =
     \<lparr>ft_id = tc_id tc, ft_type = tc_type tc, ft_name = tc_name tc,
      ft_arguments = tc_arguments tc\<rparr>"

text \<open>The block \<open>if (result.toolCall) { ... }\<close> on the map of open tool calls and the final array.\<close>

definition trackToolCall ::
  "toolCall \<Rightarrow> (string \<times> toolCall) list \<times> finalToolCall list \<Rightarrow>
     (string \<times> toolCall) list \<times> finalToolCall list" where
  "trackToolCall tc st =
     (let toolCallsMap = fst st;
          toolCalls = snd st;
          toolCallsMap' =
            (case map_of toolCallsMap (tc_id tc) of
               Some existing \<Rightarrow>
                 mapSet (tc_id tc)
                   (existing\<lparr>tc_arguments := tc_arguments existing @ tc_arguments tc,
                             tc_isLast := tc_isLast tc\<rparr>) toolCallsMap
             | None \<Rightarrow> mapSet (tc_id tc) tc toolCallsMap);
          toolCalls' =
            (if tc_isLast tc then
               (case map_of toolCallsMap' (tc_id tc) of
                  Some finalToolCall \<Rightarrow> toolCalls @ [finalOf finalToolCall]
                | None \<Rightarrow> toolCalls)
             else toolCalls)
      in (toolCallsMap', toolCalls'))"

text \<open>The loop after the frames, over \<open>toolCallsMap.entries()\<close>.\<close>

fun finalizeRemaining :: "(string \<times> toolCall) list \<Rightarrow> finalToolCall list \<Rightarrow> finalToolCall list" where
  "finalizeRemaining [] toolCalls = toolCalls"
| "finalizeRemaining ((k, tc) # rest) toolCalls =
     finalizeRemaining rest
       (if find (\<lambda>t. ft_id t = k) toolCalls = None then toolCalls @ [finalOf tc] else toolCalls)"

definition completion ::
  "string \<Rightarrow> finalToolCall list \<Rightarrow> (string \<times> toolCall) list \<Rightarrow> 'j response" where
  "completion totalContent toolCalls toolCallsMap =
     Completion (if totalContent = [] then None else Some totalContent)
       (finalizeRemaining toolCallsMap toolCalls)"

definition jsonError :: "'j runtime \<Rightarrow> bytes \<Rightarrow> 'j option" where
  "jsonError rt payload =
     (let text = toStringUtf8 rt payload
      in if startsWith text ''{'' \<and> str_includes text errorKey then jsonParse rt text else None)"

function frameLoop ::
  "'j runtime \<Rightarrow> bytes \<Rightarrow> nat \<Rightarrow> string \<Rightarrow> finalToolCall list \<Rightarrow> (string \<times> toolCall) list \<Rightarrow>
     'j response option" where
  "frameLoop rt buffer offset totalContent toolCalls toolCallsMap =
     (if offset < length buffer then
        (if offset + 5 > length buffer then Some (completion totalContent toolCalls toolCallsMap)
         else
           (let flags = buffer ! offset;
                len = readUInt32BE buffer (offset + 1)
            in if offset + 5 + len > length buffer
               then Some (completion totalContent toolCalls toolCallsMap)
               else
                 (let payload = js_slice buffer (int (offset + 5)) (int (offset + 5 + len));
                      offset' = offset + 5 + len
                  in case decompressPayload rt payload flags of
                       None \<Rightarrow> frameLoop rt buffer offset' totalContent toolCalls toolCallsMap
                     | Some payload' \<Rightarrow>
                         (case jsonError rt payload' of
                            Some j \<Rightarrow> Some (ErrorResponse j)
                          | None \<Rightarrow>
                              (case extractTextFromResponse (textDecode rt) payload' of
                                 None \<Rightarrow> None
                               | Some result \<Rightarrow>
                                   (if truthyStr (ex_error result)
                                    then Some (RateLimitResponse (case ex_error result of Some e \<Rightarrow> e | None \<Rightarrow> []))
                                    else
                                      (let st = (case ex_toolCall result of
                                                   Some tc \<Rightarrow> trackToolCall tc (toolCallsMap, toolCalls)
                                                 | None \<Rightarrow> (toolCallsMap, toolCalls));
                                           totalContent' =
                                             (if truthyStr (ex_text result)
                                              then totalContent @ (case ex_text result of Some t \<Rightarrow> t | None \<Rightarrow> [])
                                              else totalContent)
                                       in frameLoop rt buffer offset' totalContent' (snd st) (fst st))))))))
      else Some (completion totalContent toolCalls toolCallsMap))"
  by pat_completeness auto
termination
  by (relation "measure (\<lambda>(rt, buffer, offset, totalContent, toolCalls, toolCallsMap). length buffer - offset)") auto

definition transformProtobufToJSON :: "'j runtime \<Rightarrow> bytes \<Rightarrow> 'j response option" where
  "transformProtobufToJSON rt buffer = frameLoop rt buffer 0 [] [] []"

text \<open>
  Example data: a decoder for ASCII bytes, a runtime around it, a payload whose only field
  is field 1 (holding the nested field 1 = \<open>"a"\<close>), the uncompressed frame of that payload,
  and a payload whose length varint decodes to \<open>-6\<close>.
\<close>

definition asciiDecode :: "bytes \<Rightarrow> string" where
  "asciiDecode bs = map char_of bs"

definition exampleRuntime :: "unit runtime" where
  "exampleRuntime =
     \<lparr>rt_zlib = storedZlib, toStringUtf8 = asciiDecode, textDecode = asciiDecode,
      jsonParse = (\<lambda>s. None)\<rparr>"

definition toolCallPayload :: bytes where
  "toolCallPayload = [10, 3, 10, 1, 97]"

definition toolCallFrame :: bytes where
  "toolCallFrame = [0, 0, 0, 0, 5] @ toolCallPayload"

definition negativeLengthPayload :: bytes where
  "negativeLengthPayload = [10, 250, 255, 255, 255, 15]"

declare decodeVarintLoop.simps [simp del]
declare frameLoop.simps [simp del]

section \<open>Properties of the classifier\<close>

lemma str_includes_Nil: "str_includes s [] = True"
  by (induction s) auto

lemma bodyContains_truthy:
  "pat \<noteq> [] \<Longrightarrow> bodyContains body pat =
     (truthyStr body \<and> str_includes (toLowerCase (case body of Some s \<Rightarrow> s | None \<Rightarrow> [])) pat)"
  by (cases body) (auto simp: bodyContains_def truthyStr_def toLowerCase_def)

lemma checkFallbackError_classifySpec:
  "checkFallbackError cfg status errorText level = classifySpec cfg status errorText level"
  by (simp add: checkFallbackError_def checkErrorText_def classifySpec_def decisionTable_def
      bodyContains_truthy rateLimitKeywords_def fixedCooldown_def backoffRule_def
      getQuotaCooldown_def transientStatuses_def HTTP_STATUS_defs Let_def)

lemma checkStatus_checkFallbackError:
  "checkStatus cfg status level = checkFallbackError cfg status None level"
  by (simp add: checkStatus_def checkFallbackError_def checkErrorText_def truthyStr_def)

lemma checkFallbackErrorAny_text:
  "checkFallbackErrorAny cfg stringify status (StringValue s) level =
     Returned (checkFallbackError cfg status (Some s) level)"
  by (simp add: checkFallbackErrorAny_def errorStrOf_def checkFallbackError_def
        checkErrorText_def truthyStr_def checkStatus_def Let_def)

lemma checkFallbackErrorAny_falsy:
  "checkFallbackErrorAny cfg stringify status FalsyValue level =
     Returned (checkFallbackError cfg status None level)"
  by (simp add: checkFallbackErrorAny_def errorStrOf_def checkStatus_checkFallbackError)

lemma checkFallbackError_empty:
  "checkFallbackError cfg status (Some []) level = checkFallbackError cfg status None level"
  by (simp add: checkFallbackError_def checkErrorText_def truthyStr_def)

lemma checkFallbackErrorAny_other:
  "checkFallbackErrorAny cfg stringify status (TruthyValue v) level =
     (case stringify v of
        JsonText s \<Rightarrow> Returned (checkFallbackError cfg status (Some s) level)
      | JsonUndefined \<Rightarrow> Thrown
      | JsonThrows \<Rightarrow> Thrown)"
proof (cases "stringify v")
  case (JsonText s)
  show ?thesis
  proof (cases "s = []")
    case True
    then show ?thesis
      using JsonText
      by (simp add: checkFallbackErrorAny_def errorStrOf_def checkFallbackError_empty
            checkStatus_checkFallbackError toLowerCase_def)
  next
    case False
    then show ?thesis
      using JsonText
      by (simp add: checkFallbackErrorAny_def errorStrOf_def checkFallbackError_def
            checkErrorText_def truthyStr_def checkStatus_def Let_def)
  qed
qed (simp_all add: checkFallbackErrorAny_def errorStrOf_def)

text \<open>
  C1, as amended: for every status, backoff level and every \<open>errorText\<close> that is a string or
  falsy, \<open>checkFallbackError\<close> returns what the decision table gives, the first matching
  rule deciding: the message patterns before the status codes, then 401, 402/403, 404, 429,
  the transient codes, and the transient cooldown for anything else; the result is a
  function of the arguments and the configuration, and the call does not throw. For a
  truthy \<open>errorText\<close> that is not a string the same table is applied to the text
  \<open>JSON.stringify(errorText)\<close>, and the call throws when \<open>JSON.stringify\<close> throws or yields
  \<open>undefined\<close>.
\<close>

theorem checkFallbackError_decision_order:
  "checkFallbackErrorAny cfg stringify status errorText level =
     (case errorText of
        StringValue s \<Rightarrow> Returned (classifySpec cfg status (Some s) level)
      | FalsyValue \<Rightarrow> Returned (classifySpec cfg status None level)
      | TruthyValue v \<Rightarrow>
          (case stringify v of
             JsonText s \<Rightarrow> Returned (classifySpec cfg status (Some s) level)
           | JsonUndefined \<Rightarrow> Thrown
           | JsonThrows \<Rightarrow> Thrown))"
  by (cases errorText)
     (simp_all add: checkFallbackErrorAny_text checkFallbackErrorAny_falsy
        checkFallbackErrorAny_other checkFallbackError_classifySpec split: stringified.splits)

text \<open>
  The claim as first stated fails: with an object that contains itself, or a function, as
  \<open>errorText\<close> the classifier throws.
\<close>

theorem checkFallbackError_counterexample:
  "checkFallbackErrorAny exampleConfig sampleStringify 429 (TruthyValue CircularObject) 0 = Thrown \<and>
   checkFallbackErrorAny exampleConfig sampleStringify 429 (TruthyValue FunctionValue) 0 = Thrown"
  by (simp add: checkFallbackErrorAny_def errorStrOf_def sampleStringify_def)

lemma checkFallbackErrorAny_example:
  "checkFallbackErrorAny cfg sampleStringify 500
     (TruthyValue (JsonObject ''{code: 8, message: Rate limit}'')) 3 =
     Returned (backoffRule cfg 3)"
proof -
  have a: "\<not> bodyContains (Some ''{code: 8, message: Rate limit}'') ''no credentials''"
    "\<not> bodyContains (Some ''{code: 8, message: Rate limit}'') ''request not allowed''"
    "bodyContains (Some ''{code: 8, message: Rate limit}'') ''rate limit''"
    by code_simp+
  show ?thesis
    using a
    by (simp add: checkFallbackErrorAny_other sampleStringify_def checkFallbackError_classifySpec
          classifySpec_def decisionTable_def rateLimitKeywords_def)
qed

text \<open>
  C10: the classifier answers \<open>shouldFallback = true\<close> for every status, body and backoff
  level; hence \<open>markAccountUnavailable\<close> always answers \<open>shouldFallback = true\<close>, and after a
  failed call the account loop always goes round again: it never takes the branch that
  returns the error response at once.
\<close>

theorem shouldFallback_always:
  "shouldFallback (checkFallbackError cfg status errorText level) = True \<and>
   mr_shouldFallback (fst (markAccountUnavailable cfg now cid status errorText prov db)) = True \<and>
   fst (afterChatCore cfg now p creds result db) \<noteq> ReturnError r \<and>
   fst (afterChatCore cfg now p creds result db) =
     (if res_success result then ReturnSuccess (res_response result)
      else Continue (cr_connectionId creds) (res_error result) (res_status result))"
proof -
  have a: "shouldFallback (checkFallbackError cfg' status' errorText' level') = True"
    for cfg' status' errorText' level'
    by (simp add: checkFallbackError_def checkErrorText_def Let_def split: option.splits)
  have b: "mr_shouldFallback (fst (markAccountUnavailable cfg' now' cid' status' errorText' prov' db')) = True"
    for cfg' now' cid' status' errorText' prov' db'
    by (simp add: markAccountUnavailable_def Let_def a)
  have c: "fst (afterChatCore cfg now p creds result db) =
     (if res_success result then ReturnSuccess (res_response result)
      else Continue (cr_connectionId creds) (res_error result) (res_status result))"
    using b [of cfg now "cr_connectionId creds" "res_status result" "res_error result" "Some p" db]
    by (auto simp: afterChatCore_def split: prod.splits)
  from a b c show ?thesis by simp
qed

theorem shouldFallback_always_witness:
  "shouldFallback (checkFallbackError exampleConfig 200 (Some ''ok'') 0) = True \<and>
   fst (afterChatCore exampleConfig 5 ''cursor'' (credentialsOf (newConnection ''A'' 1))
          failedResult [newConnection ''A'' 1]) = Continue ''A'' (Some ''ok'') 200"
  using shouldFallback_always [where cfg = exampleConfig and status = 200
      and errorText = "Some ''ok''" and level = 0 and now = 5 and p = "''cursor''"
      and creds = "credentialsOf (newConnection ''A'' 1)" and result = failedResult
      and db = "[newConnection ''A'' 1]"]
  by (simp add: failedResult_def credentialsOf_def newConnection_def)

section \<open>Backoff over consecutive failures\<close>

lemma insort_key_map_pres:
  assumes "\<And>x. k (f x) = k x"
  shows "insort_key k (f x) (map f xs) = map f (insort_key k x xs)"
  by (induction xs) (auto simp: assms)

lemma sort_key_map_pres:
  assumes "\<And>x. k (f x) = k x"
  shows "sort_key k (map f xs) = map f (sort_key k xs)"
  by (induction xs) (auto simp: assms insort_key_map_pres)

lemma getProviderConnections_update:
  "getProviderConnections prov act (updateProviderConnection i p db) =
     map (\<lambda>c. if conn_id c = i then applyPatch p c else c) (getProviderConnections prov act db)"
proof -
  let ?f = "\<lambda>c. if conn_id c = i then applyPatch p c else c"
  have k: "priority (?f x) = priority x" for x by (simp add: applyPatch_def)
  have q: "filter (\<lambda>c. (case prov of None \<Rightarrow> True | Some p \<Rightarrow> provider c = p) \<and>
                     (case act of None \<Rightarrow> True | Some a \<Rightarrow> isActive c = a)) (map ?f db)
      = map ?f (filter (\<lambda>c. (case prov of None \<Rightarrow> True | Some p \<Rightarrow> provider c = p) \<and>
                     (case act of None \<Rightarrow> True | Some a \<Rightarrow> isActive c = a)) db)"
    by (induction db) (auto simp: applyPatch_def split: option.splits)
  show ?thesis
    unfolding getProviderConnections_def updateProviderConnection_def q
    by (rule sort_key_map_pres) (rule k)
qed

lemma find_update:
  "find (\<lambda>c. conn_id c = i) (map (\<lambda>c. if conn_id c = i then applyPatch p c else c) xs) =
     map_option (applyPatch p) (find (\<lambda>c. conn_id c = i) xs)"
  by (induction xs) (auto simp: applyPatch_def)

lemma find_after_update:
  "find (\<lambda>c. conn_id c = i) (getProviderConnections prov None (updateProviderConnection i p db)) =
     map_option (applyPatch p) (find (\<lambda>c. conn_id c = i) (getProviderConnections prov None db))"
  by (simp add: getProviderConnections_update find_update)

lemma backoff_branch:
  assumes "rateLimitFailure status body" and "\<not> takenByEarlierRule body"
  shows "checkFallbackError cfg status body n = backoffRule cfg n"
  using assms
  by (auto simp: checkFallbackError_def checkErrorText_def rateLimitFailure_def
      takenByEarlierRule_def bodyContains_truthy rateLimitKeywords_def backoffRule_def
      getQuotaCooldown_def HTTP_STATUS_defs Let_def)

lemma mark_rate_limit:
  assumes "rateLimitFailure status body" and "\<not> takenByEarlierRule body"
    and "find (\<lambda>c. conn_id c = i) (getProviderConnections prov None db) \<noteq> None"
  shows "mr_cooldownMs (fst (markAccountUnavailable cfg now i status body prov db)) =
           min (bo_base cfg * 2 ^ storedLevel i prov db) (bo_max cfg)"
    and "storedLevel i prov (snd (markAccountUnavailable cfg now i status body prov db)) =
           min (storedLevel i prov db + 1) (bo_maxLevel cfg)"
    and "find (\<lambda>c. conn_id c = i)
           (getProviderConnections prov None
              (snd (markAccountUnavailable cfg now i status body prov db))) \<noteq> None"
  using assms(3)
  by (auto simp: markAccountUnavailable_def Let_def backoff_branch [OF assms(1,2)]
      backoffRule_def storedLevel_def find_after_update applyPatch_def orElse_def noPatch_def
      split: option.splits)

lemma backoffLevelAfter_step:
  "backoffLevelAfter M (min (Suc n) M) k = backoffLevelAfter M n (Suc k)"
  by (auto simp: backoffLevelAfter_def min_def)

lemma markAll_closed_form:
  assumes "\<forall>f \<in> set fs. rateLimitFailure (fst (snd f)) (snd (snd f)) \<and>
             \<not> takenByEarlierRule (snd (snd f))"
    and "find (\<lambda>c. conn_id c = i) (getProviderConnections prov None db) \<noteq> None"
  shows "storedLevel i prov (snd (markAll cfg i prov fs db)) =
           backoffLevelAfter (bo_maxLevel cfg) (storedLevel i prov db) (length fs) \<and>
         fst (markAll cfg i prov fs db) =
           map (\<lambda>k. min (bo_base cfg *
                  2 ^ backoffLevelAfter (bo_maxLevel cfg) (storedLevel i prov db) k) (bo_max cfg))
             [0..<length fs]"
  using assms
proof (induction fs arbitrary: db)
  case Nil
  then show ?case by (simp add: backoffLevelAfter_def)
next
  case (Cons f fs)
  obtain now status body where f: "f = (now, status, body)" by (cases f) auto
  let ?db = "snd (markAccountUnavailable cfg now i status body prov db)"
  let ?n = "storedLevel i prov db"
  let ?M = "bo_maxLevel cfg"
  have rl: "rateLimitFailure status body" "\<not> takenByEarlierRule body"
    using Cons.prems(1) f by auto
  note m = mark_rate_limit [OF rl Cons.prems(2), of cfg now]
  have ih: "storedLevel i prov (snd (markAll cfg i prov fs ?db)) =
           backoffLevelAfter ?M (min (?n + 1) ?M) (length fs) \<and>
         fst (markAll cfg i prov fs ?db) =
           map (\<lambda>k. min (bo_base cfg * 2 ^ backoffLevelAfter ?M (min (?n + 1) ?M) k) (bo_max cfg))
             [0..<length fs]"
    using Cons.IH [of ?db] Cons.prems(1) m(3) unfolding m(2) by simp
  have step: "markAll cfg i prov (f # fs) db =
      (mr_cooldownMs (fst (markAccountUnavailable cfg now i status body prov db)) #
         fst (markAll cfg i prov fs ?db), snd (markAll cfg i prov fs ?db))"
    by (simp add: f split: prod.splits)
  have l1: "storedLevel i prov (snd (markAll cfg i prov (f # fs) db)) =
      backoffLevelAfter ?M ?n (length (f # fs))"
    using ih by (simp add: step backoffLevelAfter_step)
  have up: "[0..<length (f # fs)] = 0 # map Suc [0..<length fs]"
    by (simp add: upt_conv_Cons map_Suc_upt del: upt_Suc)
  have l2: "fst (markAll cfg i prov (f # fs) db) =
           map (\<lambda>k. min (bo_base cfg * 2 ^ backoffLevelAfter ?M ?n k) (bo_max cfg))
             [0..<length (f # fs)]"
    unfolding up using ih
    by (simp add: step m(1) backoffLevelAfter_step o_def) (simp add: backoffLevelAfter_def)
  from l1 l2 show ?case by simp
qed

text \<open>
  C2, as amended: take a run of consecutive failures reported for one stored connection,
  each a rate-limit failure (a rate-limit keyword in the body, or status 429) whose body
  contains neither "no credentials" nor "request not allowed". Then the cooldown returned
  for failure \<open>k\<close> is \<open>min (base * 2 ^ n) max\<close> for the level \<open>n\<close> stored before it, the
  level stored after it is \<open>min (n + 1) maxLevel\<close>, never above \<open>maxLevel\<close>, and the levels
  stored after successive failures never decrease.
\<close>

theorem rate_limit_backoff_sequence:
  assumes "\<forall>f \<in> set failures. rateLimitFailure (fst (snd f)) (snd (snd f)) \<and>
             \<not> takenByEarlierRule (snd (snd f))"
    and "find (\<lambda>c. conn_id c = i) (getProviderConnections prov None db) \<noteq> None"
    and "k < length failures"
  shows "fst (markAll cfg i prov failures db) ! k =
           min (bo_base cfg * 2 ^ levelAfter cfg i prov failures db k) (bo_max cfg) \<and>
         levelAfter cfg i prov failures db (Suc k) =
           min (levelAfter cfg i prov failures db k + 1) (bo_maxLevel cfg) \<and>
         levelAfter cfg i prov failures db (Suc k) \<le> bo_maxLevel cfg \<and>
         levelAfter cfg i prov failures db (Suc k) \<le> levelAfter cfg i prov failures db (Suc (Suc k))"
proof -
  let ?M = "bo_maxLevel cfg"
  let ?n = "storedLevel i prov db"
  have lv: "levelAfter cfg i prov failures db j = backoffLevelAfter ?M ?n (min j (length failures))"
    for j
  proof -
    have "\<forall>f \<in> set (take j failures). rateLimitFailure (fst (snd f)) (snd (snd f)) \<and>
             \<not> takenByEarlierRule (snd (snd f))"
      using assms(1) by (meson in_set_takeD)
    from markAll_closed_form [OF this assms(2), of cfg] show ?thesis
      by (simp add: levelAfter_def min.commute)
  qed
  have c: "fst (markAll cfg i prov failures db) ! k =
           min (bo_base cfg * 2 ^ backoffLevelAfter ?M ?n k) (bo_max cfg)"
    using markAll_closed_form [OF assms(1,2), of cfg] assms(3) by simp
  have k1: "min k (length failures) = k" "min (Suc k) (length failures) = Suc k"
    using assms(3) by auto
  have a1: "backoffLevelAfter ?M ?n (Suc k) = min (backoffLevelAfter ?M ?n k + 1) ?M"
    by (auto simp: backoffLevelAfter_def min_def)
  have a2: "backoffLevelAfter ?M ?n (Suc k) \<le> ?M"
    by (simp add: backoffLevelAfter_def)
  have a3: "backoffLevelAfter ?M ?n (Suc k) \<le> backoffLevelAfter ?M ?n (min (Suc (Suc k)) (length failures))"
    using assms(3) by (auto simp: backoffLevelAfter_def min_def)
  show ?thesis
    unfolding lv k1 using c a1 a2 a3 by simp
qed

lemma rate_limit_exceeded_body:
  "bodyContains (Some ''Rate limit exceeded'') ''rate limit''"
  "\<not> bodyContains (Some ''Rate limit exceeded'') ''no credentials''"
  "\<not> bodyContains (Some ''Rate limit exceeded'') ''request not allowed''"
  by code_simp+

lemma no_credentials_body: "bodyContains (Some ''no credentials'') ''no credentials''"
  by code_simp

lemma storedLevel_fresh: "storedLevel ''A'' (Some ''cursor'') [newConnection ''A'' p] = 0"
  by (simp add: storedLevel_def getProviderConnections_def newConnection_def)

theorem rate_limit_backoff_sequence_witness:
  "fst (markAll exampleConfig ''A'' (Some ''cursor'') exampleFailures [newConnection ''A'' 1]) ! 1 =
     min (bo_base exampleConfig *
          2 ^ levelAfter exampleConfig ''A'' (Some ''cursor'') exampleFailures [newConnection ''A'' 1] 1)
       (bo_max exampleConfig) \<and>
   levelAfter exampleConfig ''A'' (Some ''cursor'') exampleFailures [newConnection ''A'' 1] (Suc 1) =
     min (levelAfter exampleConfig ''A'' (Some ''cursor'') exampleFailures [newConnection ''A'' 1] 1 + 1)
       (bo_maxLevel exampleConfig) \<and>
   levelAfter exampleConfig ''A'' (Some ''cursor'') exampleFailures [newConnection ''A'' 1] (Suc 1)
     \<le> bo_maxLevel exampleConfig \<and>
   levelAfter exampleConfig ''A'' (Some ''cursor'') exampleFailures [newConnection ''A'' 1] (Suc 1)
     \<le> levelAfter exampleConfig ''A'' (Some ''cursor'') exampleFailures [newConnection ''A'' 1]
          (Suc (Suc 1))"
proof -
  have r1: "rateLimitFailure 429 (Some ''Rate limit exceeded'')"
    by code_simp
  have r2: "\<not> takenByEarlierRule (Some ''Rate limit exceeded'')"
    by code_simp
  have h1: "\<forall>f \<in> set exampleFailures. rateLimitFailure (fst (snd f)) (snd (snd f)) \<and>
              \<not> takenByEarlierRule (snd (snd f))"
    using r1 r2 by (simp add: exampleFailures_def)
  have h2: "find (\<lambda>c. conn_id c = ''A'')
              (getProviderConnections (Some ''cursor'') None [newConnection ''A'' 1]) \<noteq> None"
    by code_simp
  have h3: "1 < length exampleFailures"
    by code_simp
  show ?thesis
    by (rule rate_limit_backoff_sequence [OF h1 h2 h3])
qed

text \<open>
  The run of scenario S3 evaluated: two failures with body "Rate limit exceeded" and status
  429 on a fresh connection give the cooldowns \<open>base\<close> and \<open>2 * base\<close> and leave level 2.
\<close>

lemma backoff_scenario:
  "markAll exampleConfig ''A'' (Some ''cursor'') exampleFailures [newConnection ''A'' 1] =
     ([1000, 2000],
      [(newConnection ''A'' 1)\<lparr>testStatus := Unavailable,
         lastError := Some ''Rate limit exceeded'', errorCode := Some 429,
         lastErrorAt := Some 3000, rateLimitedUntil := Some 5000, backoffLevel := 2\<rparr>])"
  by (simp add: exampleFailures_def markAccountUnavailable_def Let_def
      checkFallbackError_classifySpec classifySpec_def decisionTable_def
      rate_limit_exceeded_body rateLimitKeywords_def backoffRule_def fixedCooldown_def
      exampleConfig_def getProviderConnections_def newConnection_def
      updateProviderConnection_def applyPatch_def noPatch_def orElse_def getUnavailableUntil_def)

text \<open>
  The claim as first stated fails: a failure with status 429 whose body says
  "no credentials" is a rate-limit failure in the claim's words, yet the classifier's first
  rule takes it and the cooldown is the \<open>notFound\<close> constant, not \<open>min (base * 2 ^ 0) max\<close>.
\<close>

theorem rate_limit_backoff_counterexample:
  "rateLimitFailure 429 (Some ''no credentials'') \<and>
   storedLevel ''A'' (Some ''cursor'') [newConnection ''A'' 1] = 0 \<and>
   mr_cooldownMs (fst (markAccountUnavailable exampleConfig 1000 ''A'' 429
       (Some ''no credentials'') (Some ''cursor'') [newConnection ''A'' 1])) = 120000 \<and>
   min (bo_base exampleConfig * 2 ^ 0) (bo_max exampleConfig) = 1000"
  by (simp add: rateLimitFailure_def storedLevel_fresh markAccountUnavailable_def Let_def
      checkFallbackError_classifySpec classifySpec_def decisionTable_def no_credentials_body
      fixedCooldown_def exampleConfig_def)

section \<open>Clearing the error state\<close>

text \<open>
  C9, as amended: \<open>clearAccountError\<close> sends no update and leaves the store as it is exactly
  when the snapshot shows a status other than "unavailable", no \<open>lastError\<close> and no
  \<open>rateLimitedUntil\<close>; otherwise it sends exactly one update, the patch
  \<open>{testStatus: "active", lastError: null, lastErrorAt: null, rateLimitedUntil: null,
  backoffLevel: 0}\<close>, which changes those five fields of the connection with that id and
  nothing else.
\<close>

theorem clearAccountError_effect:
  "clearAccountError cid cur db =
     (if cr_testStatus cur \<noteq> Unavailable \<and> \<not> truthyStr (cr_lastError cur) \<and>
         cr_rateLimitedUntil cur = None
      then ([], db)
      else ([(cid, \<lparr>p_testStatus = Some Active, p_lastError = Some None, p_errorCode = None,
                     p_lastErrorAt = Some None, p_rateLimitedUntil = Some None,
                     p_backoffLevel = Some 0, p_lastUsedAt = None,
                     p_consecutiveUseCount = None\<rparr>)],
            map (\<lambda>c. if conn_id c = cid
                      then c\<lparr>testStatus := Active, lastError := None, lastErrorAt := None,
                             rateLimitedUntil := None, backoffLevel := 0\<rparr>
                      else c) db))"
proof -
  have "applyPatch clearPatch c =
      c\<lparr>testStatus := Active, lastError := None, lastErrorAt := None,
        rateLimitedUntil := None, backoffLevel := 0\<rparr>" for c
    by (simp add: applyPatch_def clearPatch_def noPatch_def orElse_def)
  then show ?thesis
    by (simp add: clearAccountError_def updateProviderConnection_def Let_def)
      (simp add: clearPatch_def noPatch_def)
qed

theorem clearAccountError_effect_witness:
  "clearAccountError ''A''
     (credentialsOf ((newConnection ''A'' 1)\<lparr>testStatus := Unavailable, errorCode := Some 429\<rparr>))
     [(newConnection ''A'' 1)\<lparr>testStatus := Unavailable, errorCode := Some 429, backoffLevel := 3\<rparr>,
      newConnection ''B'' 2] =
   ([(''A'', \<lparr>p_testStatus = Some Active, p_lastError = Some None, p_errorCode = None,
              p_lastErrorAt = Some None, p_rateLimitedUntil = Some None,
              p_backoffLevel = Some 0, p_lastUsedAt = None, p_consecutiveUseCount = None\<rparr>)],
    [(newConnection ''A'' 1)\<lparr>errorCode := Some 429\<rparr>, newConnection ''B'' 2])"
  using clearAccountError_effect [of "''A''"
      "credentialsOf ((newConnection ''A'' 1)\<lparr>testStatus := Unavailable, errorCode := Some 429\<rparr>)"
      "[(newConnection ''A'' 1)\<lparr>testStatus := Unavailable, errorCode := Some 429, backoffLevel := 3\<rparr>,
        newConnection ''B'' 2]"]
  by (simp add: credentialsOf_def newConnection_def)

text \<open>
  The claim as first stated fails: a snapshot whose status is "expired", with no
  \<open>lastError\<close> and no \<open>rateLimitedUntil\<close>, does not show "active", yet nothing is written.
\<close>

theorem clearAccountError_counterexample:
  "cr_testStatus expiredSnapshot \<noteq> Active \<and>
   clearAccountError ''A'' expiredSnapshot [(newConnection ''A'' 1)\<lparr>testStatus := Expired\<rparr>] =
     ([], [(newConnection ''A'' 1)\<lparr>testStatus := Expired\<rparr>])"
  by (simp add: clearAccountError_def expiredSnapshot_def credentialsOf_def newConnection_def
      truthyStr_def)

section \<open>Account selection\<close>

lemma set_js_insert: "set (js_insert cmp x ys) = insert x (set ys)"
  by (induction ys) auto

lemma set_js_sort: "set (js_sort cmp xs) = set xs"
  by (induction xs) (simp_all add: js_sort_def set_js_insert)

lemma js_sort_Nil_iff: "js_sort cmp xs = [] \<longleftrightarrow> xs = []"
proof -
  have "js_sort cmp xs = [] \<longleftrightarrow> set (js_sort cmp xs) = {}" by simp
  also have "\<dots> \<longleftrightarrow> xs = []" by (simp add: set_js_sort)
  finally show ?thesis .
qed

lemma js_insert_headLeast:
  assumes "preorderCmp cmp" and "headLeast cmp ys"
  shows "headLeast cmp (js_insert cmp x ys)"
proof (cases ys)
  case Nil
  have "cmp x x \<le> 0" using assms(1) unfolding preorderCmp_def by blast
  then show ?thesis using Nil by (simp add: headLeast_def)
next
  case (Cons y ys')
  have tot: "cmp a b \<le> 0 \<or> cmp b a \<le> 0" for a b
    using assms(1) unfolding preorderCmp_def by blast
  have tr: "cmp a b \<le> 0 \<Longrightarrow> cmp b c \<le> 0 \<Longrightarrow> cmp a c \<le> 0" for a b c
    using assms(1) unfolding preorderCmp_def by blast
  have hy: "\<forall>z \<in> set (y # ys'). cmp y z \<le> 0"
    using assms(2) Cons by (simp add: headLeast_def list_all_iff)
  show ?thesis
  proof (cases "cmp x y \<le> 0")
    case True
    have "cmp x z \<le> 0" if "z \<in> set (y # ys')" for z
      using tr [OF True] hy that by blast
    moreover have "cmp x x \<le> 0" using tot [of x x] by simp
    ultimately have "\<forall>z \<in> set (x # y # ys'). cmp x z \<le> 0" by simp
    then show ?thesis using True Cons by (simp add: headLeast_def list_all_iff)
  next
    case False
    then have "cmp y x \<le> 0" using tot [of x y] by simp
    then have "\<forall>z \<in> set (y # js_insert cmp x ys'). cmp y z \<le> 0"
      using hy by (simp add: set_js_insert)
    then show ?thesis using False Cons by (simp add: headLeast_def list_all_iff)
  qed
qed

lemma js_sort_headLeast:
  assumes "preorderCmp cmp"
  shows "headLeast cmp (js_sort cmp xs)"
proof (induction xs)
  case Nil
  show ?case by (simp add: js_sort_def headLeast_def)
next
  case (Cons x xs)
  then show ?case
    using js_insert_headLeast [OF assms, of "js_sort cmp xs" x] by (simp add: js_sort_def)
qed

lemma js_sort_head:
  assumes "preorderCmp cmp" and "js_sort cmp xs = h # t"
  shows "h \<in> set xs \<and> (\<forall>z \<in> set xs. cmp h z \<le> 0)"
proof -
  have "h \<in> set (js_sort cmp xs)" using assms(2) by simp
  moreover have "list_all (\<lambda>z. cmp h z \<le> 0) (js_sort cmp xs)"
    using js_sort_headLeast [OF assms(1), of xs] assms(2) by (simp add: headLeast_def)
  ultimately show ?thesis by (simp add: set_js_sort list_all_iff)
qed

lemma preorder_byRateLimitedUntilCmp: "preorderCmp byRateLimitedUntilCmp"
  by (auto simp: preorderCmp_def byRateLimitedUntilCmp_def)




lemma earliestLoop_step:
  "earliestLoop now (x # xs) acc =
     earliestLoop now xs
       (case rateLimitedUntil x of
          None \<Rightarrow> acc
        | Some u \<Rightarrow>
            if now < u \<and> (case acc of None \<Rightarrow> True | Some e \<Rightarrow> e = 0 \<or> u < e)
            then Some u else acc)"
  by (simp split: option.splits)

lemma earliestLoop_nonzero:
  "acc \<noteq> Some 0 \<Longrightarrow> earliestLoop now xs acc \<noteq> Some 0"
proof (induction xs arbitrary: acc)
  case Nil
  then show ?case by simp
next
  case (Cons x xs)
  show ?case
    unfolding earliestLoop_step
    by (rule Cons.IH) (use Cons.prems in \<open>simp split: option.splits\<close>)
qed

lemma earliestLoop_le_acc:
  "a \<noteq> 0 \<Longrightarrow> \<exists>e. earliestLoop now xs (Some a) = Some e \<and> e \<le> a"
proof (induction xs arbitrary: a)
  case Nil
  then show ?case by simp
next
  case (Cons x xs)
  show ?case
  proof (cases "rateLimitedUntil x")
    case None
    then show ?thesis unfolding earliestLoop_step using Cons.IH [OF Cons.prems] by simp
  next
    case (Some u)
    show ?thesis
    proof (cases "now < u \<and> u < a")
      case True
      then have "u \<noteq> 0" by simp
      from Cons.IH [OF this] obtain e where e: "earliestLoop now xs (Some u) = Some e" "e \<le> u"
        by blast
      have "earliestLoop now (x # xs) (Some a) = earliestLoop now xs (Some u)"
        unfolding earliestLoop_step using Some True by simp
      then show ?thesis using e True by simp
    next
      case False
      then have "\<not> (now < u \<and> (a = 0 \<or> u < a))" using Cons.prems by auto
      then have "earliestLoop now (x # xs) (Some a) = earliestLoop now xs (Some a)"
        unfolding earliestLoop_step using Some by auto
      then show ?thesis using Cons.IH [OF Cons.prems] by simp
    qed
  qed
qed

lemma earliestLoop_minimal:
  assumes "acc \<noteq> Some 0" and "c \<in> set xs" and "rateLimitedUntil c = Some u" and "now < u"
  shows "\<exists>e. earliestLoop now xs acc = Some e \<and> e \<le> u"
  using assms(1,2)
proof (induction xs arbitrary: acc)
  case Nil
  then show ?case by simp
next
  case (Cons x xs)
  let ?acc = "case rateLimitedUntil x of
          None \<Rightarrow> acc
        | Some u \<Rightarrow>
            if now < u \<and> (case acc of None \<Rightarrow> True | Some e \<Rightarrow> e = 0 \<or> u < e)
            then Some u else acc"
  have nz: "?acc \<noteq> Some 0" using Cons.prems(1) by (simp split: option.splits)
  show ?case
  proof (cases "c \<in> set xs")
    case True
    show ?thesis unfolding earliestLoop_step by (rule Cons.IH [OF nz True])
  next
    case False
    then have cx: "x = c" using Cons.prems(2) by simp
    have "\<exists>a. ?acc = Some a \<and> a \<le> u \<and> a \<noteq> 0"
      using assms(3,4) Cons.prems(1) cx by (cases acc) auto
    then obtain a where a: "?acc = Some a" "a \<le> u" "a \<noteq> 0" by blast
    from earliestLoop_le_acc [OF a(3), of now xs] obtain e where
      "earliestLoop now xs (Some a) = Some e" "e \<le> a" by blast
    then show ?thesis unfolding earliestLoop_step a(1) using a(2) by simp
  qed
qed

lemma earliestLoop_attained:
  "earliestLoop now xs acc = acc \<or>
     (\<exists>c \<in> set xs. rateLimitedUntil c = earliestLoop now xs acc \<and>
        isAccountUnavailable now (rateLimitedUntil c))"
proof (induction xs arbitrary: acc)
  case Nil
  then show ?case by simp
next
  case (Cons x xs)
  let ?acc = "case rateLimitedUntil x of
          None \<Rightarrow> acc
        | Some u \<Rightarrow>
            if now < u \<and> (case acc of None \<Rightarrow> True | Some e \<Rightarrow> e = 0 \<or> u < e)
            then Some u else acc"
  have st: "earliestLoop now (x # xs) acc = earliestLoop now xs ?acc"
    by (rule earliestLoop_step)
  have a: "?acc = acc \<or> (rateLimitedUntil x = ?acc \<and> isAccountUnavailable now (rateLimitedUntil x))"
    by (simp add: isAccountUnavailable_def split: option.splits)
  from Cons.IH [of ?acc] show ?case
  proof
    assume same: "earliestLoop now xs ?acc = ?acc"
    from a show ?thesis
    proof
      assume "?acc = acc"
      then show ?thesis using same st by simp
    next
      assume "rateLimitedUntil x = ?acc \<and> isAccountUnavailable now (rateLimitedUntil x)"
      then have "rateLimitedUntil x = earliestLoop now (x # xs) acc \<and>
          isAccountUnavailable now (rateLimitedUntil x)"
        using same st by simp
      then show ?thesis by (meson list.set_intros(1))
    qed
  next
    assume "\<exists>c \<in> set xs. rateLimitedUntil c = earliestLoop now xs ?acc \<and>
        isAccountUnavailable now (rateLimitedUntil c)"
    then obtain c where "c \<in> set xs" "rateLimitedUntil c = earliestLoop now (x # xs) acc"
      "isAccountUnavailable now (rateLimitedUntil c)"
      using st by auto
    then show ?thesis by (meson list.set_intros(2))
  qed
qed

lemma getEarliest_Some:
  assumes "c \<in> set xs" and "isAccountUnavailable now (rateLimitedUntil c)"
  shows "\<exists>e. getEarliestRateLimitedUntil now xs = Some e \<and> now < e \<and>
           (\<exists>d \<in> set xs. rateLimitedUntil d = Some e) \<and>
           (\<forall>d \<in> set xs. \<forall>u. rateLimitedUntil d = Some u \<and> now < u \<longrightarrow> e \<le> u)"
proof -
  have n: "(None :: instant option) \<noteq> Some 0" by simp
  obtain u where u: "rateLimitedUntil c = Some u" "now < u"
    using assms(2) by (auto simp: isAccountUnavailable_def split: option.splits)
  from earliestLoop_minimal [OF n assms(1) u] obtain e where
    e: "earliestLoop now xs None = Some e" by blast
  have e0: "e \<noteq> 0" using earliestLoop_nonzero [OF n, of now xs] e by simp
  from earliestLoop_attained [of now xs None] e obtain d where
    d: "d \<in> set xs" "rateLimitedUntil d = Some e" "isAccountUnavailable now (rateLimitedUntil d)"
    by auto
  have ne: "now < e" using d(2,3) by (simp add: isAccountUnavailable_def)
  have mn: "e \<le> v" if "d' \<in> set xs" "rateLimitedUntil d' = Some v" "now < v" for d' v
    using earliestLoop_minimal [OF n that] e by simp
  have ge: "getEarliestRateLimitedUntil now xs = Some e"
    using e e0 by (simp add: getEarliestRateLimitedUntil_def)
  show ?thesis using ge ne d(1,2) mn by blast
qed

lemma getEarliest_None:
  assumes "\<forall>c \<in> set xs. \<not> isAccountUnavailable now (rateLimitedUntil c)"
  shows "getEarliestRateLimitedUntil now xs = None"
proof -
  from earliestLoop_attained [of now xs None] assms
  have "earliestLoop now xs None = None" by blast
  then show ?thesis by (simp add: getEarliestRateLimitedUntil_def)
qed

lemma set_getProviderConnections:
  "set (getProviderConnections (Some p) (Some True) db) =
     {c \<in> set db. provider c = p \<and> isActive c}"
  by (auto simp: getProviderConnections_def)


lemma js_sort_hd_mem:
  assumes "xs \<noteq> []"
  shows "(case js_sort cmp xs of [] \<Rightarrow> d | c # _ \<Rightarrow> c) \<in> set xs"
proof (cases "js_sort cmp xs")
  case Nil
  then show ?thesis using assms by (simp add: js_sort_Nil_iff)
next
  case (Cons h t)
  have "h \<in> set (js_sort cmp xs)" by (simp add: Cons)
  then have "h \<in> set xs" by (simp only: set_js_sort)
  then show ?thesis by (simp add: Cons)
qed

lemma pickConnection_mem:
  "fst (pickConnection st now first (first # rest) db) \<in> set (first # rest)"
proof -
  have ne: "first # rest \<noteq> []" by simp
  note a = js_sort_hd_mem [OF ne, of first byRecencyCmp]
  note b = js_sort_hd_mem [OF ne, of first byOldestCmp]
  have c: "first \<in> set (first # rest)" by simp
  show ?thesis
    unfolding pickConnection_def Let_def using a b c by (simp del: set_simps)
qed

lemma selected_is_available:
  assumes "getProviderCredentials st now prov excl db = (Selected cr, db')"
  shows "\<not> isAccountUnavailable now (cr_rateLimitedUntil cr) \<and>
         (\<exists>c \<in> set db. cr = credentialsOf c \<and> provider c = prov \<and> isActive c \<and>
            \<not> isAccountUnavailable now (rateLimitedUntil c))"
proof -
  let ?conns = "getProviderConnections (Some prov) (Some True) db"
  let ?avail = "filter (\<lambda>c. \<not> (truthyStr excl \<and> Some (conn_id c) = excl) \<and>
                                \<not> isAccountUnavailable now (rateLimitedUntil c)) ?conns"
  have ne: "?conns \<noteq> []"
    using assms by (auto simp: getProviderCredentials_def Let_def split: option.splits)
  obtain first rest where av: "?avail = first # rest"
    using assms ne
    by (cases ?avail) (auto simp: getProviderCredentials_def Let_def split: option.splits)
  let ?c = "fst (pickConnection st now first ?avail db)"
  have cr: "cr = credentialsOf ?c"
    using assms ne av
    by (simp add: getProviderCredentials_def Let_def split: prod.splits)
  have "?c \<in> set ?avail"
    using pickConnection_mem [of st now first rest db] av by simp
  then have "?c \<in> set db \<and> provider ?c = prov \<and> isActive ?c \<and>
      \<not> isAccountUnavailable now (rateLimitedUntil ?c)"
    by (simp add: set_getProviderConnections)
  then show ?thesis
    using cr by (auto simp: credentialsOf_def)
qed

lemma all_rate_limited_sentinel:
  assumes ne: "getProviderConnections (Some prov) (Some True) db \<noteq> []"
    and all: "\<forall>c \<in> set (getProviderConnections (Some prov) (Some True) db).
                isAccountUnavailable now (rateLimitedUntil c)"
  shows "\<exists>info. getProviderCredentials st now prov excl db = (AllRateLimited info, db) \<and>
           now < retryAfter info \<and>
           (\<forall>c \<in> set (getProviderConnections (Some prov) (Some True) db).
              \<forall>u. rateLimitedUntil c = Some u \<longrightarrow> retryAfter info \<le> u) \<and>
           (\<exists>c \<in> set (getProviderConnections (Some prov) (Some True) db).
              rateLimitedUntil c = Some (retryAfter info) \<and>
              arl_lastError info = strOrNull (lastError c) \<and>
              arl_lastErrorCode info = numOrNull (errorCode c))"
proof -
  let ?conns = "getProviderConnections (Some prov) (Some True) db"
  let ?avail = "filter (\<lambda>c. \<not> (truthyStr excl \<and> Some (conn_id c) = excl) \<and>
                                \<not> isAccountUnavailable now (rateLimitedUntil c)) ?conns"
  let ?rl = "filter (\<lambda>c. case rateLimitedUntil c of None \<Rightarrow> False | Some u \<Rightarrow> u > now) ?conns"
  have av: "?avail = []" using all by (simp add: filter_empty_conv)
  have rl: "?rl = ?conns"
    using all by (auto simp: isAccountUnavailable_def filter_id_conv split: option.splits)
  obtain c0 where c0: "c0 \<in> set ?conns" using ne by (cases ?conns) auto
  from getEarliest_Some [OF c0] all c0 obtain e where
    e: "getEarliestRateLimitedUntil now ?conns = Some e" "now < e"
       "\<exists>d \<in> set ?conns. rateLimitedUntil d = Some e"
       "\<forall>d \<in> set ?conns. \<forall>u. rateLimitedUntil d = Some u \<and> now < u \<longrightarrow> e \<le> u"
    by blast
  obtain h t where ht: "js_sort byRateLimitedUntilCmp ?conns = h # t"
    using ne by (cases "js_sort byRateLimitedUntilCmp ?conns") (auto simp: js_sort_Nil_iff)
  from js_sort_head [OF preorder_byRateLimitedUntilCmp ht]
  have h: "h \<in> set ?conns" "\<forall>z \<in> set ?conns. byRateLimitedUntilCmp h z \<le> 0" by auto
  obtain uh where uh: "rateLimitedUntil h = Some uh" "now < uh"
    using all h(1) by (auto simp: isAccountUnavailable_def split: option.splits)
  from e(3) obtain d where d: "d \<in> set ?conns" "rateLimitedUntil d = Some e" by blast
  have "uh \<le> e" using h(2) d uh by (auto simp: byRateLimitedUntilCmp_def orElse_def)
  moreover have "e \<le> uh" using e(4) h(1) uh by blast
  ultimately have ue: "uh = e" by simp
  let ?info = "\<lparr>retryAfter = e, retryAfterHuman = formatRetryAfter now (Some e),
                 arl_lastError = strOrNull (lastError h),
                 arl_lastErrorCode = numOrNull (errorCode h)\<rparr>"
  have res: "getProviderCredentials st now prov excl db = (AllRateLimited ?info, db)"
    unfolding getProviderCredentials_def Let_def av rl using ne e(1) ht by simp
  have le: "\<forall>c \<in> set ?conns. \<forall>u. rateLimitedUntil c = Some u \<longrightarrow> e \<le> u"
    using e(4) all by (auto simp: isAccountUnavailable_def)
  show ?thesis
    using res e(2) le h(1) uh(1) ue by (intro exI [of _ ?info]) auto
qed

section \<open>Account selection with every clock reading\<close>

lemma availableLoop_Cons:
  "availableLoop clock excl (c # cs) k =
     (if truthyStr excl \<and> Some (conn_id c) = excl then availableLoop clock excl cs k
      else
        (case rateLimitedUntil c of
           None \<Rightarrow>
             (c # fst (availableLoop clock excl cs k), snd (availableLoop clock excl cs k))
         | Some u \<Rightarrow>
             (if u > clock k then fst (availableLoop clock excl cs (k + 1))
              else c # fst (availableLoop clock excl cs (k + 1)),
              snd (availableLoop clock excl cs (k + 1)))))"
  by (simp add: isAccountUnavailableAt_def case_prod_beta split: option.splits)


lemma rateLimitedLoop_Cons:
  "rateLimitedLoop clock (c # cs) k =
     (case rateLimitedUntil c of
        None \<Rightarrow> rateLimitedLoop clock cs k
      | Some u \<Rightarrow>
          (if u > clock k then c # fst (rateLimitedLoop clock cs (k + 1))
           else fst (rateLimitedLoop clock cs (k + 1)),
           snd (rateLimitedLoop clock cs (k + 1))))"
  by (simp add: case_prod_beta split: option.splits)











text \<open>With a clock that stands still the two models of \<open>getProviderCredentials\<close> agree.\<close>

lemma availableLoop_const:
  "fst (availableLoop (\<lambda>k. now) excl cs k) =
     filter (\<lambda>c. \<not> (truthyStr excl \<and> Some (conn_id c) = excl) \<and>
                  \<not> isAccountUnavailable now (rateLimitedUntil c)) cs"
proof (induction cs arbitrary: k)
  case Nil
  show ?case by simp
next
  case (Cons c cs)
  show ?case
    unfolding availableLoop_Cons
    using Cons [of k] Cons [of "k + 1"]
    by (cases "rateLimitedUntil c") (auto simp: isAccountUnavailable_def)
qed

lemma rateLimitedLoop_const:
  "fst (rateLimitedLoop (\<lambda>k. now) cs k) =
     filter (\<lambda>c. case rateLimitedUntil c of None \<Rightarrow> False | Some u \<Rightarrow> u > now) cs"
proof (induction cs arbitrary: k)
  case Nil
  show ?case by simp
next
  case (Cons c cs)
  show ?case
    unfolding rateLimitedLoop_Cons
    using Cons [of k] Cons [of "k + 1"]
    by (cases "rateLimitedUntil c") auto
qed

lemma getProviderCredentialsAt_const:
  "(case getProviderCredentialsAt st (\<lambda>k. now) prov excl db of (sel, db', n) \<Rightarrow> (sel, db')) =
     getProviderCredentials st now prov excl db"
proof -
  let ?conns = "getProviderConnections (Some prov) (Some True) db"
  let ?avail = "filter (\<lambda>c. \<not> (truthyStr excl \<and> Some (conn_id c) = excl) \<and>
                  \<not> isAccountUnavailable now (rateLimitedUntil c)) ?conns"
  let ?rl = "filter (\<lambda>c. case rateLimitedUntil c of None \<Rightarrow> False | Some u \<Rightarrow> u > now) ?conns"
  obtain avail k1 where al: "availableLoop (\<lambda>k. now) excl ?conns 0 = (avail, k1)"
    by (cases "availableLoop (\<lambda>k. now) excl ?conns 0")
  have av: "avail = ?avail"
    using availableLoop_const [of now excl ?conns 0] al by simp
  obtain rl k3 where rll:
    "rateLimitedLoop (\<lambda>k. now) ?conns (debugLoop (\<lambda>k. now) ?conns k1 + 1) = (rl, k3)"
    by (cases "rateLimitedLoop (\<lambda>k. now) ?conns (debugLoop (\<lambda>k. now) ?conns k1 + 1)")
  have rl: "rl = ?rl"
    using rateLimitedLoop_const [of now ?conns "debugLoop (\<lambda>k. now) ?conns k1 + 1"] rll by simp
  show ?thesis
  proof (cases "?conns = []")
    case True
    then show ?thesis
      by (simp add: getProviderCredentialsAt_def getProviderCredentials_def Let_def
            split: option.splits)
  next
    case ne: False
    show ?thesis
    proof (cases ?avail)
      case Nil
      then have a: "avail = []" using av by simp
      show ?thesis
      proof (cases "getEarliestRateLimitedUntil now ?conns")
        case None
        then show ?thesis
          using ne al a Nil
          by (simp add: getProviderCredentialsAt_def getProviderCredentials_def Let_def)
      next
        case (Some e)
        then show ?thesis
          using ne al a Nil rll rl
          by (simp add: getProviderCredentialsAt_def getProviderCredentials_def Let_def)
      qed
    next
      case (Cons first rest)
      then have a: "avail = first # rest" using av by simp
      show ?thesis
        using ne al a Cons
        by (simp add: getProviderCredentialsAt_def getProviderCredentials_def Let_def
              split: prod.splits)
    qed
  qed
qed





text \<open>
  The two example stores evaluated with one instant for the whole call: the connection in
  cooldown is passed over, and with both in cooldown the sentinel carries the earlier
  instant and that connection's error.
\<close>

lemma selection_examples:
  "getProviderCredentials defaultSettings 50 ''cursor'' None oneInCooldown =
     (Selected (credentialsOf (newConnection ''B'' 2)), oneInCooldown)"
  "getProviderCredentials defaultSettings 50 ''cursor'' None bothInCooldown =
     (AllRateLimited \<lparr>retryAfter = 70, retryAfterHuman = ''reset after 1s'',
        arl_lastError = Some ''bad gateway'', arl_lastErrorCode = Some 502\<rparr>, bothInCooldown)"
  by code_simp+

section \<open>Sticky round-robin\<close>


















section \<open>Retrying the token refresh\<close>





lemma retryLoop_call:
  "attempt < n \<Longrightarrow>
   \<not> (0 < attempt \<and>
      \<not> optionalCall log lg_debug (Returned (retryMessage attempt n (attempt * 1000)))) \<Longrightarrow>
   retryLoop f n log attempt ds =
     (case f attempt of
        Resolves (Some result) \<Rightarrow>
          \<lparr>rr_result = Returned (Some result),
           rr_delays = (if attempt > 0 then ds @ [attempt * 1000] else ds),
           rr_calls = attempt + 1\<rparr>
      | Resolves None \<Rightarrow>
          retryLoop f n log (attempt + 1) (if attempt > 0 then ds @ [attempt * 1000] else ds)
      | Rejects err \<Rightarrow>
          if optionalCall log lg_warn (failedMessage attempt n err)
          then retryLoop f n log (attempt + 1)
                 (if attempt > 0 then ds @ [attempt * 1000] else ds)
          else \<lparr>rr_result = Thrown,
                rr_delays = (if attempt > 0 then ds @ [attempt * 1000] else ds),
                rr_calls = attempt + 1\<rparr>)"
  by (subst retryLoop.simps) (simp only: if_True if_False Let_def)




lemma refreshWithRetry_null_rejection:
  assumes "log = Some l" and "lg_warn l = Some w" and "f 0 = Rejects Nullish" and "0 < n"
  shows "refreshWithRetry f n log = \<lparr>rr_result = Thrown, rr_delays = [], rr_calls = 1\<rparr>"
proof -
  have d: "\<not> (0 < (0::nat) \<and>
      \<not> optionalCall log lg_debug (Returned (retryMessage 0 n (0 * 1000))))"
    by simp
  have w: "\<not> optionalCall log lg_warn (failedMessage 0 n Nullish)"
    using assms(1,2) by (simp add: optionalCall_def failedMessage_def)
  show ?thesis
    unfolding refreshWithRetry_def retryLoop_call [OF assms(4) d]
    using assms(3) w by simp
qed






lemma refreshWithRetry_example:
  "refreshWithRetry alwaysRejects 3 (Some plainLogger) =
     \<lparr>rr_result = Returned None, rr_delays = [1000, 2000], rr_calls = 3\<rparr>"
  by (simp add: refreshWithRetry_def retryLoop.simps alwaysRejects_def optionalCall_def
        plainLogger_def failedMessage_def)

section \<open>The checksum bytes\<close>

lemma toInt32_id: "- (2 ^ 31) \<le> x \<Longrightarrow> x < 2 ^ 31 \<Longrightarrow> toInt32 x = x"
  by (simp add: toInt32_def)

lemma js_and_255: "0 \<le> x \<Longrightarrow> x < 2 ^ 31 \<Longrightarrow> js_and x 255 = x mod 256"
proof -
  assume a: "0 \<le> x" "x < 2 ^ 31"
  have m: "(255 :: int) = mask 8" by (simp add: mask_eq_exp_minus_1)
  have "toInt32 x AND toInt32 255 = x AND 255"
    using a by (simp add: toInt32_id)
  also have "\<dots> = x mod 2 ^ 8"
    unfolding m by (metis take_bit_eq_mask take_bit_int_def)
  finally show ?thesis by (simp add: js_and_def)
qed

lemma timestampBytes_wraps:
  assumes "0 \<le> t" and "t < 2 ^ 31"
  shows "timestampBytes t =
     [t div 2 ^ 8 mod 256, t mod 256, t div 2 ^ 24 mod 256, t div 2 ^ 16 mod 256,
      t div 2 ^ 8 mod 256, t mod 256]"
proof -
  have d: "0 \<le> t div 2 ^ k" "t div 2 ^ k < 2 ^ 31" for k :: nat
  proof -
    show "0 \<le> t div 2 ^ k" using assms(1) by (simp add: pos_imp_zdiv_nonneg_iff)
    have "t div 2 ^ k \<le> t" using assms(1) int_div_le_self by force
    then show "t div 2 ^ k < 2 ^ 31" using assms(2) by linarith
  qed
  have s: "js_shr t n = t div 2 ^ (n mod 32)" for n
    using assms by (simp add: js_shr_def toInt32_id)
  show ?thesis
    unfolding timestampBytes_def s
    using d [of 8] d [of 0] d [of 24] d [of 16] assms
    by (simp add: js_and_255)
qed

text \<open>
  C7: the checksum is a function of the timestamp and the machine id, so two computations
  for the same values agree. It is not the encoding of the 6-byte big-endian timestamp,
  though: \<open>timestamp >> 40\<close> and \<open>timestamp >> 32\<close> shift by 8 and by 0, so the first two
  bytes repeat the last two (lemma \<open>timestampBytes_wraps\<close>). For \<open>Date.now() = 1762000000000\<close>
  the source computes the bytes 226, 208, 0, 26, 226, 208 and the checksum
  "R5iag2W6" followed by the machine id, where the big-endian bytes 0, 0, 0, 26, 226, 208
  give "paaotVuQ".
\<close>

theorem generateChecksum_not_big_endian:
  "timestampBytes 1762000 = [226, 208, 0, 26, 226, 208] \<and>
   bigEndian6 1762000 = [0, 0, 0, 26, 226, 208] \<and>
   generateChecksum 1762000000000 ''m'' = ''R5iag2W6m'' \<and>
   checksumSpec 1762000000000 ''m'' = ''paaotVuQm''"
  by code_simp

section \<open>ConnectRPC frames\<close>

lemma recombine32:
  "push_bit 24 (take_bit 8 (drop_bit 24 x)) OR push_bit 16 (take_bit 8 (drop_bit 16 x)) OR
     push_bit 8 (take_bit 8 (drop_bit 8 x)) OR take_bit 8 x = take_bit 32 (x::int)"
proof (rule bit_eqI)
  fix n :: nat
  consider "n < 8" | "8 \<le> n" "n < 16" | "16 \<le> n" "n < 24" | "24 \<le> n" "n < 32" | "32 \<le> n"
    by linarith
  then show "bit (push_bit 24 (take_bit 8 (drop_bit 24 x)) OR
        push_bit 16 (take_bit 8 (drop_bit 16 x)) OR
        push_bit 8 (take_bit 8 (drop_bit 8 x)) OR take_bit 8 x) n = bit (take_bit 32 x) n"
    by cases (auto simp: bit_simps)
qed

lemma js_or_id:
  "- (2 ^ 31) \<le> x \<Longrightarrow> x < 2 ^ 31 \<Longrightarrow> - (2 ^ 31) \<le> y \<Longrightarrow> y < 2 ^ 31 \<Longrightarrow> js_or x y = x OR y"
  by (simp add: js_or_def toInt32_id)

lemma js_or_nonneg:
  "0 \<le> x \<Longrightarrow> x < 2 ^ 31 \<Longrightarrow> 0 \<le> y \<Longrightarrow> y < 2 ^ 31 \<Longrightarrow> js_or x y = x OR y"
  by (simp add: js_or_def toInt32_id)

lemma or_bound:
  assumes "0 \<le> (x::int)" "x < 2 ^ 31" "0 \<le> y" "y < 2 ^ 31"
  shows "0 \<le> x OR y" "x OR y < 2 ^ 31"
  using assms OR_upper [of x 31 y] by simp_all

lemma header_byte:
  assumes "0 \<le> x" "x < 2 ^ 31" "k < 32"
  shows "js_and (js_shr x k) 255 = take_bit 8 (drop_bit k x)"
proof -
  have s: "js_shr x k = drop_bit k x"
    using assms by (simp add: js_shr_def toInt32_id drop_bit_eq_div)
  have "0 \<le> drop_bit k x" using assms(1) by simp
  moreover have "x div 2 ^ k \<le> x" using assms(1) int_div_le_self by force
  then have "drop_bit k x \<le> x" by (simp add: drop_bit_eq_div)
  ultimately show ?thesis
    unfolding s using assms(2) by (simp add: js_and_255 take_bit_eq_mod)
qed

lemma js_shl_small:
  assumes "0 \<le> b" "b * 2 ^ k < 2 ^ 31" "k < 32"
  shows "js_shl b k = push_bit k b"
proof -
  have "b \<le> b * 2 ^ k" using assms(1) by (simp add: mult_le_cancel_left1)
  then have "b < 2 ^ 31" using assms(2) by linarith
  then have "toInt32 b = b" using assms(1) by (simp add: toInt32_id)
  moreover have "0 \<le> b * 2 ^ k" using assms(1) by simp
  moreover from this have "toInt32 (b * 2 ^ k) = b * 2 ^ k"
    using assms(2) by (intro toInt32_id) simp_all
  ultimately show ?thesis
    using assms(3) by (simp add: js_shl_def push_bit_eq_mult)
qed

lemma parse_length:
  assumes "0 \<le> x" "x < 2 ^ 31"
  shows "js_or (js_or (js_or (js_shl (js_and (js_shr x 24) 255) 24)
                              (js_shl (js_and (js_shr x 16) 255) 16))
                       (js_shl (js_and (js_shr x 8) 255) 8))
               (js_and x 255) = x"
proof -
  let ?b3 = "take_bit 8 (drop_bit 24 x)"
  let ?b2 = "take_bit 8 (drop_bit 16 x)"
  let ?b1 = "take_bit 8 (drop_bit 8 x)"
  let ?b0 = "take_bit 8 x"
  have h: "js_and (js_shr x 24) 255 = ?b3" "js_and (js_shr x 16) 255 = ?b2"
    "js_and (js_shr x 8) 255 = ?b1"
    using assms by (simp_all add: header_byte)
  have h0: "js_and x 255 = ?b0" using assms by (simp add: js_and_255 take_bit_eq_mod)
  have nn: "0 \<le> ?b3" "0 \<le> ?b2" "0 \<le> ?b1" "0 \<le> ?b0" by simp_all
  have ub: "?b2 < 2 ^ 8" "?b1 < 2 ^ 8" "?b0 < 2 ^ 8"
    by (rule take_bit_int_less_exp)+
  have "drop_bit 24 x < 2 ^ 7"
    using assms by (simp add: drop_bit_eq_div)
  moreover have "?b3 \<le> drop_bit 24 x"
    using assms(1) by (simp add: take_bit_eq_mod zmod_le_nonneg_dividend)
  ultimately have ub3: "?b3 < 2 ^ 7" by linarith
  have m3: "?b3 * 2 ^ 24 < 2 ^ 31" using ub3 nn(1) by simp
  have m2: "?b2 * 2 ^ 16 < 2 ^ 24" using ub(1) nn(2) by simp
  have m1: "?b1 * 2 ^ 8 < 2 ^ 16" using ub(2) nn(3) by simp
  have s3: "js_shl ?b3 24 = push_bit 24 ?b3" using nn(1) m3 by (simp add: js_shl_small)
  have s2: "js_shl ?b2 16 = push_bit 16 ?b2" using nn(2) m2 by (simp add: js_shl_small)
  have s1: "js_shl ?b1 8 = push_bit 8 ?b1" using nn(3) m1 by (simp add: js_shl_small)
  have p3: "0 \<le> push_bit 24 ?b3" "push_bit 24 ?b3 < 2 ^ 31"
    using m3 by (simp_all add: push_bit_eq_mult)
  have p2: "0 \<le> push_bit 16 ?b2" "push_bit 16 ?b2 < 2 ^ 31"
    using m2 by (simp_all add: push_bit_eq_mult)
  have p1: "0 \<le> push_bit 8 ?b1" "push_bit 8 ?b1 < 2 ^ 31"
    using m1 by (simp_all add: push_bit_eq_mult)
  have p0: "0 \<le> ?b0" "?b0 < 2 ^ 31" using ub(3) by simp_all
  have o1: "js_or (push_bit 24 ?b3) (push_bit 16 ?b2) = push_bit 24 ?b3 OR push_bit 16 ?b2"
    by (rule js_or_nonneg) (rule p3 p2)+
  have b1: "0 \<le> push_bit 24 ?b3 OR push_bit 16 ?b2" "push_bit 24 ?b3 OR push_bit 16 ?b2 < 2 ^ 31"
    by (rule or_bound [OF p3 p2])+
  have o2: "js_or (push_bit 24 ?b3 OR push_bit 16 ?b2) (push_bit 8 ?b1) =
      push_bit 24 ?b3 OR push_bit 16 ?b2 OR push_bit 8 ?b1"
    unfolding or.assoc [symmetric] by (rule js_or_nonneg) (rule b1 p1)+
  have b2: "0 \<le> push_bit 24 ?b3 OR push_bit 16 ?b2 OR push_bit 8 ?b1"
    "push_bit 24 ?b3 OR push_bit 16 ?b2 OR push_bit 8 ?b1 < 2 ^ 31"
    unfolding or.assoc [symmetric] by (rule or_bound [OF b1 p1])+
  have o3: "js_or (push_bit 24 ?b3 OR push_bit 16 ?b2 OR push_bit 8 ?b1) ?b0 =
      push_bit 24 ?b3 OR push_bit 16 ?b2 OR push_bit 8 ?b1 OR ?b0"
    unfolding or.assoc [symmetric] by (rule js_or_nonneg) (rule b2 [unfolded or.assoc [symmetric]] p0)+
  have "take_bit 32 x = x" using assms by (simp add: take_bit_int_eq_self)
  then show ?thesis
    unfolding h h0 s3 s2 s1 o1 o2 o3 recombine32 .
qed

lemma toInt32_signed: "toInt32 x = signed_take_bit 31 x"
  by (simp add: toInt32_def signed_take_bit_eq_take_bit_shift take_bit_eq_mod)

lemma js_or_upper: "js_or x y < 2 ^ 31"
proof -
  have "signed_take_bit 31 x OR signed_take_bit 31 y = signed_take_bit 31 (x OR y)"
    by (rule bit_eqI) (simp add: bit_simps)
  then have "js_or x y = signed_take_bit 31 (x OR y)"
    by (simp add: js_or_def toInt32_signed)
  then show ?thesis
    using signed_take_bit_int_less_exp [of 31 "x OR y"] by simp
qed

lemma length_js_slice_5:
  assumes "len < 2 ^ 31" and "2 ^ 31 \<le> int (length xs) - 5" and "5 \<le> length xs"
  shows "int (length (js_slice xs 5 (5 + len))) < int (length xs) - 5"
proof (cases "0 \<le> 5 + len")
  case True
  then show ?thesis
    using assms by (auto simp: js_slice_def Let_def min_def max_def)
next
  case False
  then show ?thesis
    using assms by (auto simp: js_slice_def Let_def min_def max_def)
qed

lemma frame_roundtrip:
  assumes z: "\<And>x. gunzipSync z (gzipSync z x) = Some x"
    and len: "int (length (if c then gzipSync z payload else payload)) < 2 ^ 31"
  shows "parseConnectRPCFrame z (wrapConnectRPCFrame z payload c) =
     Some \<lparr>fr_flags = (if c then 1 else 0),
           fr_length = int (length (if c then gzipSync z payload else payload)),
           fr_payload = payload,
           fr_consumed = 5 + int (length (if c then gzipSync z payload else payload))\<rparr>"
proof -
  let ?final = "if c then gzipSync z payload else payload"
  let ?L = "int (length ?final)"
  have L: "0 \<le> ?L" "?L < 2 ^ 31" using len by simp_all
  have pl: "js_or (js_or (js_or (js_shl (js_and (js_shr ?L 24) 255) 24)
                              (js_shl (js_and (js_shr ?L 16) 255) 16))
                       (js_shl (js_and (js_shr ?L 8) 255) 8))
               (js_and ?L 255) = ?L"
    by (rule parse_length [OF L])
  have sl: "js_slice (a # b # c' # d # e # ?final) 5 (5 + ?L) = ?final" for a b c' d e :: int
    by (simp add: js_slice_def Let_def)
  show ?thesis
    unfolding parseConnectRPCFrame_def wrapConnectRPCFrame_def Let_def
    by (simp add: pl sl z del: One_nat_def)
qed

lemma frame_too_long:
  assumes "2 ^ 31 \<le> int (length payload)"
  shows "case parseConnectRPCFrame z (wrapConnectRPCFrame z payload False) of
           None \<Rightarrow> True
         | Some r \<Rightarrow> length (fr_payload r) < length payload"
proof -
  let ?buf = "wrapConnectRPCFrame z payload False"
  let ?len = "js_or (js_or (js_or (js_shl (?buf ! 1) 24) (js_shl (?buf ! 2) 16))
                     (js_shl (?buf ! 3) 8)) (?buf ! 4)"
  have n: "length ?buf = 5 + length payload" "?buf ! 0 = 0"
    by (simp_all add: wrapConnectRPCFrame_def Let_def)
  have u: "?len < 2 ^ 31" by (rule js_or_upper)
  have "int (length (js_slice ?buf 5 (5 + ?len))) < int (length ?buf) - 5"
    by (rule length_js_slice_5 [OF u]) (use assms n in simp_all)
  then have "length (js_slice ?buf 5 (5 + ?len)) < length payload"
    using n by simp
  then show ?thesis
    unfolding parseConnectRPCFrame_def [of z ?buf] Let_def using n
    by (simp del: One_nat_def)
qed

lemma storedZlib_contract: "gunzipSync storedZlib (gzipSync storedZlib x) = Some x"
  by (simp add: storedZlib_def)

lemma generateCursorBody_roundtrip:
  assumes z: "\<And>x. gunzipSync z (gzipSync z x) = Some x"
    and len: "int (length (if 3 \<le> length messages
                then gzipSync z (buildChatRequest env messages m)
                else buildChatRequest env messages m)) < 2 ^ 31"
  shows "hd (generateCursorBody z env messages m) = (if 3 \<le> length messages then 1 else 0) \<and>
     parseConnectRPCFrame z (generateCursorBody z env messages m) =
       Some \<lparr>fr_flags = (if 3 \<le> length messages then 1 else 0),
             fr_length = int (length (if 3 \<le> length messages
                then gzipSync z (buildChatRequest env messages m)
                else buildChatRequest env messages m)),
             fr_payload = buildChatRequest env messages m,
             fr_consumed = 5 + int (length (if 3 \<le> length messages
                then gzipSync z (buildChatRequest env messages m)
                else buildChatRequest env messages m))\<rparr>"
proof -
  have g: "generateCursorBody z env messages m =
      wrapConnectRPCFrame z (buildChatRequest env messages m) (3 \<le> length messages)"
    by (simp add: generateCursorBody_def)
  have h: "hd (wrapConnectRPCFrame z p c) = (if c then 1 else 0)" for p c
    by (simp add: wrapConnectRPCFrame_def Let_def)
  show ?thesis
    unfolding g h using frame_roundtrip [of z "3 \<le> length messages"
        "buildChatRequest env messages m", OF z len]
    by simp
qed

lemma small2: "int (length (buildChatRequest exampleEnv twoMessages ''m'')) < 2 ^ 31"
  by code_simp

lemma small4: "int (length (gzipSync storedZlib (buildChatRequest exampleEnv fourMessages ''m''))) < 2 ^ 31"
  by code_simp

lemma roundtrip_examples:
  "hd (generateCursorBody storedZlib exampleEnv twoMessages ''m'') = 0"
  "map_option fr_payload
     (parseConnectRPCFrame storedZlib (generateCursorBody storedZlib exampleEnv twoMessages ''m'')) =
   Some (buildChatRequest exampleEnv twoMessages ''m'')"
  "hd (generateCursorBody storedZlib exampleEnv fourMessages ''m'') = 1"
  "map_option fr_payload
     (parseConnectRPCFrame storedZlib (generateCursorBody storedZlib exampleEnv fourMessages ''m'')) =
   Some (buildChatRequest exampleEnv fourMessages ''m'')"
proof -
  have l2: "\<not> 3 \<le> length twoMessages" by (simp add: twoMessages_def)
  have l4: "3 \<le> length fourMessages" by (simp add: fourMessages_def)
  note r2 = generateCursorBody_roundtrip [of storedZlib twoMessages exampleEnv "''m''",
      OF storedZlib_contract]
  note r4 = generateCursorBody_roundtrip [of storedZlib fourMessages exampleEnv "''m''",
      OF storedZlib_contract]
  show "hd (generateCursorBody storedZlib exampleEnv twoMessages ''m'') = 0"
    using r2 small2 l2 by simp
  show "map_option fr_payload
     (parseConnectRPCFrame storedZlib (generateCursorBody storedZlib exampleEnv twoMessages ''m'')) =
   Some (buildChatRequest exampleEnv twoMessages ''m'')"
    using r2 small2 l2 by simp
  show "hd (generateCursorBody storedZlib exampleEnv fourMessages ''m'') = 1"
    using r4 small4 l4 by simp
  show "map_option fr_payload
     (parseConnectRPCFrame storedZlib (generateCursorBody storedZlib exampleEnv fourMessages ''m'')) =
   Some (buildChatRequest exampleEnv fourMessages ''m'')"
    using r4 small4 l4 by simp
qed

lemma length_hugeText: "length hugeText = 2 ^ 30"
  by (simp add: hugeText_def)

lemma length_encodeField_Bytes: "length b \<le> length (encodeField f 2 (Bytes b))"
  by (simp add: encodeField_def Let_def)

lemma length_encodeField_Str: "length s \<le> length (encodeField f 2 (Str s))"
  by (simp add: encodeField_def Let_def utf8Bytes_def)

lemma length_encodeMessage: "length s \<le> length (encodeMessage (Str s) r i c)"
  using length_encodeField_Str [of s 1] by (simp add: encodeMessage_def)

lemma length_message_field:
  "length s \<le> length (encodeField 1 2 (Bytes (encodeMessage (Str s) r i c)))"
  using length_encodeMessage [of s r i c]
    length_encodeField_Bytes [of "encodeMessage (Str s) r i c" 1]
  by linarith

lemma length_encodeRequest_two:
  "length s1 + length s2 \<le>
     length (encodeRequest env [\<lparr>msg_role = r1, msg_content = Str s1\<rparr>,
                                \<lparr>msg_role = r2, msg_content = Str s2\<rparr>] m)"
proof -
  have u: "[0..<length [\<lparr>msg_role = r1, msg_content = Str s1\<rparr>,
                        \<lparr>msg_role = r2, msg_content = Str s2\<rparr>]] = [0, 1]"
    by (simp add: upt_rec)
  show ?thesis
    unfolding encodeRequest_def Let_def u
    using length_message_field [of s1] length_message_field [of s2]
    by (simp add: add_mono trans_le_add1)
qed

lemma length_buildChatRequest_huge:
  "2 ^ 31 \<le> int (length (buildChatRequest env hugeMessages m))"
proof -
  have "length hugeText + length hugeText \<le> length (encodeRequest env hugeMessages m)"
    unfolding hugeMessages_def by (rule length_encodeRequest_two)
  also have "\<dots> \<le> length (buildChatRequest env hugeMessages m)"
    unfolding buildChatRequest_def by (rule length_encodeField_Bytes)
  finally have "2 ^ 30 + 2 ^ 30 \<le> length (buildChatRequest env hugeMessages m)"
    by (simp add: length_hugeText)
  then have "int (2 ^ 30 + 2 ^ 30) \<le> int (length (buildChatRequest env hugeMessages m))"
    by (rule iffD2 [OF of_nat_le_iff])
  then show ?thesis by simp
qed

text \<open>
  C6: the frame that \<open>generateCursorBody\<close> produces has flags 1 and a gzip payload exactly
  when there are at least 3 messages, and \<open>parseConnectRPCFrame\<close> recovers flags, length
  and the protobuf bytes whenever the framed payload is shorter than \<open>2 ^ 31\<close> bytes
  (lemma \<open>generateCursorBody_roundtrip\<close>). For longer payloads the round trip fails:
  \<open>parseConnectRPCFrame\<close> assembles the length with \<open>buffer[1] << 24\<close>, a signed 32-bit
  value, where the writer and the response decoder (\<open>readUInt32BE\<close>) use the unsigned
  one. For two user messages of \<open>2 ^ 30\<close> bytes each the parsed payload is not the
  protobuf that was framed.
\<close>

theorem generateCursorBody_huge_frame:
  "length hugeMessages = 2 \<and>
   (case parseConnectRPCFrame storedZlib
           (generateCursorBody storedZlib exampleEnv hugeMessages ''m'') of
      None \<Rightarrow> True
    | Some r \<Rightarrow> fr_payload r \<noteq> buildChatRequest exampleEnv hugeMessages ''m'')"
proof -
  have l: "length hugeMessages = 2" by (simp add: hugeMessages_def)
  have g: "generateCursorBody storedZlib exampleEnv hugeMessages ''m'' =
      wrapConnectRPCFrame storedZlib (buildChatRequest exampleEnv hugeMessages ''m'') False"
    by (simp add: generateCursorBody_def l)
  from frame_too_long [OF length_buildChatRequest_huge [of exampleEnv "''m''"], of storedZlib]
  show ?thesis
    unfolding g using l by (auto split: option.splits)
qed

section \<open>Decoding Cursor responses\<close>

lemma extract_no_toolCall:
  "extractTextFromResponse decode payload = Some r \<Longrightarrow> ex_toolCall r = None"
  by (auto simp: extractTextFromResponse_def split: option.splits if_splits)

lemma finish_empty: "completion totalContent [] [] = Completion c tcs \<Longrightarrow> tcs = []"
  by (auto simp: completion_def)

lemma frameLoop_no_toolCalls:
  "toolCalls = [] \<Longrightarrow> toolCallsMap = [] \<Longrightarrow>
   frameLoop rt buffer offset totalContent toolCalls toolCallsMap = Some (Completion c tcs) \<Longrightarrow>
   tcs = []"
proof (induction rt buffer offset totalContent toolCalls toolCallsMap rule: frameLoop.induct)
  case (1 rt buffer offset totalContent toolCalls toolCallsMap)
  from "1.prems"(3) show ?case
    apply (subst (asm) frameLoop.simps)
    using "1.IH" "1.prems"(1,2) extract_no_toolCall
    apply (auto simp: Let_def dest: finish_empty split: if_splits option.splits)
    done
qed

lemma field_at_0: "decodeField negativeLengthPayload 0 = Some (1, 2, VBytes [], 0)"
  by code_simp

lemma length_negativeLengthPayload: "length negativeLengthPayload = 6"
  by (simp add: negativeLengthPayload_def)

lemma loops:
  assumes "decodeMessageLoop data pos fm = Some y"
  shows "\<not> (data = negativeLengthPayload \<and> pos = 0)"
proof (rule decodeMessageLoop.raw_induct
         [where P = "\<lambda>data pos fm y. \<not> (data = negativeLengthPayload \<and> pos = 0)",
          OF _ assms])
  fix f :: "bytes \<Rightarrow> int \<Rightarrow> fieldMap \<Rightarrow> fieldMap option"
  fix data pos fm y
  assume ih: "\<And>data pos fm y. f data pos fm = Some y \<Longrightarrow>
                \<not> (data = negativeLengthPayload \<and> pos = 0)"
  assume eq: "(if pos < int (length data) then
                 (case decodeField data pos of
                    None \<Rightarrow> Some fm
                  | Some r \<Rightarrow>
                      f data (snd (snd (snd r)))
                        (pushField (fst r)
                           \<lparr>e_wireType = fst (snd r), e_value = fst (snd (snd r))\<rparr> fm))
               else Some fm) = Some y"
  show "\<not> (data = negativeLengthPayload \<and> pos = 0)"
  proof
    assume a: "data = negativeLengthPayload \<and> pos = 0"
    with eq have "f data 0 (pushField 1 \<lparr>e_wireType = 2, e_value = VBytes []\<rparr> fm) = Some y"
      by (simp add: field_at_0 length_negativeLengthPayload)
    from ih [OF this] a show False by simp
  qed
qed

lemma decodeMessage_loops: "decodeMessage negativeLengthPayload = None"
proof (cases "decodeMessage negativeLengthPayload")
  case None then show ?thesis .
next
  case (Some y)
  then show ?thesis using loops [of "negativeLengthPayload" 0 "[]" y]
    by (simp add: decodeMessage_def)
qed

text \<open>
  C5: the decoder does not do what the claim says. \<open>extractTextFromResponse\<close> reads field 2
  only: whatever the payload, a result it returns carries no tool call, so the tool-call
  block of \<open>transformProtobufToJSON\<close> never runs and the completion it builds has no tool
  calls, whatever the buffer.
\<close>

theorem toolCall_never_decoded:
  "(extractTextFromResponse decode payload = Some r \<longrightarrow> ex_toolCall r = None) \<and>
   (transformProtobufToJSON rt buffer = Some (Completion content tcs) \<longrightarrow> tcs = [])"
proof (intro conjI impI)
  assume "extractTextFromResponse decode payload = Some r"
  then show "ex_toolCall r = None" by (rule extract_no_toolCall)
next
  assume "transformProtobufToJSON rt buffer = Some (Completion content tcs)"
  then show "tcs = []"
    unfolding transformProtobufToJSON_def by (rule frameLoop_no_toolCalls [OF refl refl])
qed

text \<open>
  The payload below decodes to a message that contains field 1, yet the decoder returns
  neither text nor tool call for it, and the response built from its frame has no tool
  calls.
\<close>

theorem toolCall_never_decoded_witness:
  "map_option (\<lambda>m. mapHas m 1) (decodeMessage toolCallPayload) = Some True \<and>
   extractTextFromResponse asciiDecode toolCallPayload =
     Some \<lparr>ex_text = None, ex_error = None, ex_toolCall = None\<rparr> \<and>
   transformProtobufToJSON exampleRuntime toolCallFrame = Some (Completion None [])"
proof -
  have h0: "map_option (\<lambda>m. mapHas m 1) (decodeMessage toolCallPayload) = Some True"
    by code_simp
  have h1: "extractTextFromResponse asciiDecode toolCallPayload =
     Some \<lparr>ex_text = None, ex_error = None, ex_toolCall = None\<rparr>"
    by code_simp
  have h2: "transformProtobufToJSON exampleRuntime toolCallFrame = Some (Completion None [])"
    by code_simp
  from toolCall_never_decoded [of asciiDecode toolCallPayload
         "\<lparr>ex_text = None, ex_error = None, ex_toolCall = None\<rparr>"
         exampleRuntime toolCallFrame None "[]"] h0 h1 h2
  show ?thesis by simp
qed

end
